theory Spec2Isabelle
  imports Complex_Main "HOL-Library.Multiset"
begin

section \<open>Data model\<close>

text \<open>
  The tables of the migration (User, Project, Bid, File) as records, the three enums as
  datatypes, the database as a record of row lists in insertion order. Identifiers are the
  TEXT primary keys. The creation time of a bid, by which the bid list of a project is
  ordered, is a column of the model, set from the database clock when the row is
  created; the other createdAt and updatedAt columns are read by no modelled handler
  and are left out.
\<close>

type_synonym ident = string
type_synonym date = int

datatype UserRole = BUYER | SELLER

datatype ProjectStatus = PENDING | IN_PROGRESS | COMPLETED

datatype BidStatus = BID_PENDING | ACCEPTED | REJECTED

record user =
  user_id :: ident
  user_email :: string
  user_password :: string
  user_name :: string
  user_role :: UserRole
  user_avatar :: "string option"

record project =
  project_id :: ident
  project_title :: string
  project_description :: string
  project_budgetMin :: rat
  project_budgetMax :: rat
  project_deadline :: date
  project_status :: ProjectStatus
  project_buyerId :: ident
  project_sellerId :: "ident option"

record bid =
  bid_id :: ident
  bid_amount :: rat
  bid_deliveryTime :: int
  bid_message :: string
  bid_status :: BidStatus
  bid_projectId :: ident
  bid_sellerId :: ident
  bid_createdAt :: date

record fileRow =
  file_id :: ident
  file_name :: string
  file_path :: string
  file_size :: int
  file_mimeType :: string
  file_projectId :: ident

record store =
  users :: "user list"
  projects :: "project list"
  bids :: "bid list"
  files :: "fileRow list"

definition empty_store :: store where
  "empty_store = \<lparr>users = [], projects = [], bids = [], files = []\<rparr>"

section \<open>Errors and responses\<close>

text \<open>
  A handler throws an Error carrying a statusCode and a message (\<open>AppError\<close>); an
  error raised by the runtime or by a library (a TypeError, the database client, the
  password hash, the token signer and verifier) carries no statusCode
  (\<open>DriverError\<close>) and the error handler answers it with 500.
  A handler's outcome is the error or the HTTP status with the JSON body, paired with
  the store as the handler leaves it: the store is threaded through every write, so an
  error raised after a write returns the written store.
\<close>

datatype failure = AppError nat string | DriverError

fun statusCode :: "failure \<Rightarrow> nat" where
  "statusCode (AppError c m) = c"
| "statusCode DriverError = 500"

record publicUser =
  pu_id :: ident
  pu_name :: string
  pu_email :: string
  pu_role :: UserRole
  pu_avatar :: "string option"

record sellerView =
  sv_id :: ident
  sv_name :: string
  sv_email :: "string option"

record fileView =
  fv_id :: ident
  fv_name :: string
  fv_url :: string
  fv_size :: int
  fv_mimeType :: string

datatype response =
    AuthJson string publicUser
  | ProjectJson project
  | ProjectFilesJson project "fileView list"
  | BidJson bid
  | BidsJson "(bid \<times> sellerView option) list"
  | MessageJson string

type_synonym outcome = "(failure + nat \<times> response) \<times> store"

section \<open>External collaborators\<close>

text \<open>
  The primitives the handlers call and the repository does not implement: the password
  hash and its comparison (bcryptjs), the token signer and verifier (jsonwebtoken, keyed
  by the configured secret; signing throws when no secret is configured), the date
  parser (\<open>new Date\<close>, whose Invalid Date the database client rejects) and the
  upper-casing of a string by the JavaScript runtime (\<open>String.prototype.toUpperCase\<close>,
  which follows the Unicode case mapping). They are parameters: nothing is assumed of
  them.
\<close>

datatype jwt_result = Decoded ident | JsonWebTokenError | TokenExpiredError | NotBeforeError

record env =
  bcrypt_hash :: "string \<Rightarrow> string"
  bcrypt_compare :: "string \<Rightarrow> string \<Rightarrow> bool"
  jwt_sign :: "ident \<Rightarrow> UserRole \<Rightarrow> string option"
  jwt_verify :: "string \<Rightarrow> jwt_result"
  parseDate :: "string \<Rightarrow> date option"
  toUpperCase :: "string \<Rightarrow> string"

section \<open>JavaScript values\<close>

text \<open>
  The body of a register request is parsed JSON: each field is absent (\<open>None\<close>) or a JSON
  value of any type. \<open>!x\<close> holds of an absent field, of null, false, zero and the empty
  string; arrays and objects are truthy. \<open>asString\<close> is the string a field holds, if it
  holds one: calling \<open>toUpperCase\<close> on any other value throws a TypeError, and the
  database client and the password hash reject any other value where a string is due.
  The fields of the other requests are taken at the type of the column they feed.
\<close>

datatype json =
    JNull
  | JBool bool
  | JNum rat
  | JStr string
  | JArray "json list"
  | JObject "(string \<times> json) list"

fun truthyJson :: "json option \<Rightarrow> bool" where
  "truthyJson None = False"
| "truthyJson (Some JNull) = False"
| "truthyJson (Some (JBool b)) = b"
| "truthyJson (Some (JNum n)) = (n \<noteq> 0)"
| "truthyJson (Some (JStr str)) = (str \<noteq> [])"
| "truthyJson (Some (JArray xs)) = True"
| "truthyJson (Some (JObject kvs)) = True"

fun asString :: "json option \<Rightarrow> string option" where
  "asString (Some (JStr str)) = Some str"
| "asString _ = None"

definition truthy :: "string option \<Rightarrow> bool" where
  "truthy x = (case x of None \<Rightarrow> False | Some v \<Rightarrow> v \<noteq> [])"

definition truthyNum :: "'a::zero option \<Rightarrow> bool" where
  "truthyNum x = (case x of None \<Rightarrow> False | Some v \<Rightarrow> v \<noteq> 0)"

definition roleOf :: "string \<Rightarrow> UserRole" where
  "roleOf r = (if r = ''BUYER'' then BUYER else SELLER)"

section \<open>The database client\<close>

text \<open>
  The queries the handlers issue. \<open>findUnique\<close> and \<open>findFirst\<close> return the first
  matching row, \<open>findMany\<close> all of them; \<open>create\<close> fails on a primary key or a unique
  index already in use; \<open>update\<close> and \<open>delete\<close> fail when no row has the key; deleting a
  project is RESTRICTed by its bids and CASCADEs to its files, as the migration declares
  the two foreign keys (the comment in \<open>deleteProject\<close> expects the bids to go with the
  project; with the constraint of the migration the delete of a project that has bids
  fails in the database).
\<close>

definition user_findUnique_email :: "store \<Rightarrow> string \<Rightarrow> user option" where
  "user_findUnique_email s e = find (\<lambda>u. user_email u = e) (users s)"

definition user_findUnique :: "store \<Rightarrow> ident \<Rightarrow> user option" where
  "user_findUnique s i = find (\<lambda>u. user_id u = i) (users s)"

definition user_create :: "user \<Rightarrow> store \<Rightarrow> store option" where
  "user_create u s =
     (if user_id u \<in> set (map user_id (users s)) \<or> user_email u \<in> set (map user_email (users s))
      then None
      else Some (s\<lparr>users := users s @ [u]\<rparr>))"

definition project_findUnique :: "store \<Rightarrow> ident \<Rightarrow> project option" where
  "project_findUnique s i = find (\<lambda>p. project_id p = i) (projects s)"

definition project_create :: "project \<Rightarrow> store \<Rightarrow> store option" where
  "project_create p s =
     (if project_id p \<in> set (map project_id (projects s)) then None
      else Some (s\<lparr>projects := projects s @ [p]\<rparr>))"

definition project_update :: "ident \<Rightarrow> (project \<Rightarrow> project) \<Rightarrow> store \<Rightarrow> (project \<times> store) option" where
  "project_update i f s =
     (case project_findUnique s i of
        None \<Rightarrow> None
      | Some p \<Rightarrow>
          Some (f p, s\<lparr>projects := map (\<lambda>q. if project_id q = i then f q else q) (projects s)\<rparr>))"

definition project_delete :: "ident \<Rightarrow> store \<Rightarrow> store option" where
  "project_delete i s =
     (if project_findUnique s i = None then None
      else if \<exists>b \<in> set (bids s). bid_projectId b = i then None
      else Some (s\<lparr>projects := filter (\<lambda>q. project_id q \<noteq> i) (projects s),
                   files := filter (\<lambda>f. file_projectId f \<noteq> i) (files s)\<rparr>))"

definition bid_findUnique :: "store \<Rightarrow> ident \<Rightarrow> bid option" where
  "bid_findUnique s i = find (\<lambda>b. bid_id b = i) (bids s)"

definition bid_findFirst :: "store \<Rightarrow> (bid \<Rightarrow> bool) \<Rightarrow> bid option" where
  "bid_findFirst s w = find w (bids s)"

definition bid_findMany :: "store \<Rightarrow> (bid \<Rightarrow> bool) \<Rightarrow> bid list" where
  "bid_findMany s w = filter w (bids s)"

text \<open>
  \<open>orderBy: { createdAt: 'desc' }\<close>: the newest row first. Among rows created at the same
  time the database is free; the model keeps them in the order of the table.
\<close>

definition orderByCreatedAtDesc :: "bid list \<Rightarrow> bid list" where
  "orderByCreatedAtDesc xs = sort_key (\<lambda>b. - bid_createdAt b) xs"

definition bid_create :: "bid \<Rightarrow> store \<Rightarrow> store option" where
  "bid_create b s =
     (if bid_id b \<in> set (map bid_id (bids s)) then None
      else Some (s\<lparr>bids := bids s @ [b]\<rparr>))"

definition bid_update :: "ident \<Rightarrow> (bid \<Rightarrow> bid) \<Rightarrow> store \<Rightarrow> (bid \<times> store) option" where
  "bid_update i f s =
     (case bid_findUnique s i of
        None \<Rightarrow> None
      | Some b \<Rightarrow> Some (f b, s\<lparr>bids := map (\<lambda>c. if bid_id c = i then f c else c) (bids s)\<rparr>))"

definition bid_updateMany :: "(bid \<Rightarrow> bool) \<Rightarrow> (bid \<Rightarrow> bid) \<Rightarrow> store \<Rightarrow> store" where
  "bid_updateMany w f s = s\<lparr>bids := map (\<lambda>c. if w c then f c else c) (bids s)\<rparr>"

definition bid_delete :: "ident \<Rightarrow> store \<Rightarrow> store option" where
  "bid_delete i s =
     (if bid_findUnique s i = None then None
      else Some (s\<lparr>bids := filter (\<lambda>c. bid_id c \<noteq> i) (bids s)\<rparr>))"

definition file_create :: "fileRow \<Rightarrow> store \<Rightarrow> store option" where
  "file_create f s =
     (if file_id f \<in> set (map file_id (files s)) then None
      else Some (s\<lparr>files := files s @ [f]\<rparr>))"

definition file_findMany :: "store \<Rightarrow> ident \<Rightarrow> fileRow list" where
  "file_findMany s i = filter (\<lambda>f. file_projectId f = i) (files s)"

section \<open>Authentication controller\<close>

definition generateToken :: "env \<Rightarrow> ident \<Rightarrow> UserRole \<Rightarrow> string option" where
  "generateToken e userId role = jwt_sign e userId role"

definition register ::
  "env \<Rightarrow> json option \<Rightarrow> json option \<Rightarrow> json option \<Rightarrow> json option \<Rightarrow> ident \<Rightarrow> store \<Rightarrow> outcome"
where
  "register e name email password role newId s =
     (if \<not> truthyJson name \<or> \<not> truthyJson email \<or> \<not> truthyJson password \<or> \<not> truthyJson role
      then (Inl (AppError 400 ''All fields are required''), s)
      else (case asString role of
          None \<Rightarrow> (Inl DriverError, s)
        | Some r \<Rightarrow>
           (if toUpperCase e r \<notin> set [''BUYER'', ''SELLER'']
            then (Inl (AppError 400 ''Role must be either BUYER or SELLER''), s)
            else (case asString email of
                None \<Rightarrow> (Inl DriverError, s)
              | Some em \<Rightarrow>
                 (case user_findUnique_email s em of
                    Some existingUser \<Rightarrow>
                      (Inl (AppError 409 ''User with this email already exists''), s)
                  | None \<Rightarrow>
                     (case asString password of
                        None \<Rightarrow> (Inl DriverError, s)
                      | Some pw \<Rightarrow>
                         (case asString name of
                            None \<Rightarrow> (Inl DriverError, s)
                          | Some n \<Rightarrow>
                             (let hashedPassword = bcrypt_hash e pw;
                                  u = \<lparr>user_id = newId, user_email = em,
                                       user_password = hashedPassword, user_name = n,
                                       user_role = roleOf (toUpperCase e r), user_avatar = None\<rparr>
                              in case user_create u s of
                                   None \<Rightarrow> (Inl DriverError, s)
                                 | Some s' \<Rightarrow>
                                    (case generateToken e (user_id u) (user_role u) of
                                       None \<Rightarrow> (Inl DriverError, s')
                                     | Some token \<Rightarrow>
                                        (Inr (201, AuthJson token
                                           \<lparr>pu_id = user_id u, pu_name = user_name u,
                                            pu_email = user_email u, pu_role = user_role u,
                                            pu_avatar = None\<rparr>), s'))))))))))"

definition login :: "env \<Rightarrow> string option \<Rightarrow> string option \<Rightarrow> store \<Rightarrow> outcome" where
  "login e email password s =
     (if \<not> truthy email \<or> \<not> truthy password
      then (Inl (AppError 400 ''Email and password are required''), s)
      else (case user_findUnique_email s (the email) of
          None \<Rightarrow> (Inl (AppError 401 ''Invalid credentials''), s)
        | Some u \<Rightarrow>
           (if \<not> bcrypt_compare e (the password) (user_password u)
            then (Inl (AppError 401 ''Invalid credentials''), s)
            else (case generateToken e (user_id u) (user_role u) of
                None \<Rightarrow> (Inl DriverError, s)
              | Some token \<Rightarrow>
                 (Inr (200, AuthJson token
                    \<lparr>pu_id = user_id u, pu_name = user_name u, pu_email = user_email u,
                     pu_role = user_role u, pu_avatar = user_avatar u\<rparr>), s)))))"

section \<open>Authentication middleware\<close>

text \<open>
  \<open>authenticate\<close> reads the bearer token (the text between the first and the second
  blank of the Authorization header), verifies it and attaches the user row it names; it
  gives a status code to two of the verifier's errors and passes the third on as it is.
  The three guards either pass (\<open>None\<close>) or hand an error to the error handler.
\<close>

definition authenticate :: "env \<Rightarrow> string option \<Rightarrow> store \<Rightarrow> failure + user" where
  "authenticate e authHeader s =
     (if \<not> truthy authHeader \<or> take 7 (the authHeader) \<noteq> ''Bearer ''
      then Inl (AppError 401 ''Authorization token required'')
      else (let token = takeWhile (\<lambda>c. c \<noteq> CHR '' '') (drop 7 (the authHeader))
            in case jwt_verify e token of
                 JsonWebTokenError \<Rightarrow> Inl (AppError 401 ''Invalid token'')
               | TokenExpiredError \<Rightarrow> Inl (AppError 401 ''Token expired'')
               | NotBeforeError \<Rightarrow> Inl DriverError
               | Decoded userId \<Rightarrow>
                  (case user_findUnique s userId of
                     None \<Rightarrow> Inl (AppError 401 ''User not found'')
                   | Some u \<Rightarrow> Inr u)))"

definition requireBuyer :: "user \<Rightarrow> failure option" where
  "requireBuyer u =
     (if user_role u \<noteq> BUYER then Some (AppError 403 ''Access denied. Buyers only'') else None)"

definition requireSeller :: "user \<Rightarrow> failure option" where
  "requireSeller u =
     (if user_role u \<noteq> SELLER then Some (AppError 403 ''Access denied. Sellers only'') else None)"

definition requireProjectOwner :: "user \<Rightarrow> ident \<Rightarrow> store \<Rightarrow> failure option" where
  "requireProjectOwner u projectId s =
     (case project_findUnique s projectId of
        None \<Rightarrow> Some (AppError 404 ''Project not found'')
      | Some p \<Rightarrow>
         (if project_buyerId p \<noteq> user_id u
          then Some (AppError 403 ''Access denied. You do not own this project'')
          else None))"

section \<open>Project controller\<close>

text \<open>
  A budget is the object \<open>{min, max}\<close> of the request; either member may be missing.
  \<open>sendEmail\<close> catches every error of the mail transport and returns nothing, so the
  notifications change neither the store nor the response and are not modelled.
\<close>

record budget =
  budget_min :: "rat option"
  budget_max :: "rat option"

record upload =
  up_originalname :: string
  up_path :: string
  up_size :: int
  up_mimetype :: string

definition createProject ::
  "env \<Rightarrow> user \<Rightarrow> string option \<Rightarrow> string option \<Rightarrow> budget option \<Rightarrow> string option \<Rightarrow> ident
     \<Rightarrow> store \<Rightarrow> outcome"
where
  "createProject e u title description budget deadline newId s =
     (if user_role u \<noteq> BUYER then (Inl (AppError 403 ''Only buyers can create projects''), s)
      else if \<not> truthy title \<or> \<not> truthy description \<or> budget = None \<or> \<not> truthy deadline
      then (Inl (AppError 400 ''All fields are required''), s)
      else (case (budget_min (the budget), budget_max (the budget), parseDate e (the deadline)) of
          (Some bmin, Some bmax, Some d) \<Rightarrow>
            (let p = \<lparr>project_id = newId, project_title = the title,
                      project_description = the description, project_budgetMin = bmin,
                      project_budgetMax = bmax, project_deadline = d, project_status = PENDING,
                      project_buyerId = user_id u, project_sellerId = None\<rparr>
             in case project_create p s of
                  None \<Rightarrow> (Inl DriverError, s)
                | Some s' \<Rightarrow> (Inr (201, ProjectJson p), s'))
        | _ \<Rightarrow> (Inl DriverError, s)))"

text \<open>
  The update data of \<open>updateProject\<close>: a member left undefined is skipped by the
  database client, the others overwrite the column.
\<close>

record projectUpdateData =
  ud_title :: "string option"
  ud_description :: "string option"
  ud_budgetMin :: "rat option"
  ud_budgetMax :: "rat option"
  ud_deadline :: "date option"

definition applyProjectUpdate :: "projectUpdateData \<Rightarrow> project \<Rightarrow> project" where
  "applyProjectUpdate d p =
     p\<lparr>project_title := (case ud_title d of None \<Rightarrow> project_title p | Some v \<Rightarrow> v),
       project_description := (case ud_description d of None \<Rightarrow> project_description p | Some v \<Rightarrow> v),
       project_budgetMin := (case ud_budgetMin d of None \<Rightarrow> project_budgetMin p | Some v \<Rightarrow> v),
       project_budgetMax := (case ud_budgetMax d of None \<Rightarrow> project_budgetMax p | Some v \<Rightarrow> v),
       project_deadline := (case ud_deadline d of None \<Rightarrow> project_deadline p | Some v \<Rightarrow> v)\<rparr>"

definition updateProject ::
  "env \<Rightarrow> user \<Rightarrow> ident \<Rightarrow> string option \<Rightarrow> string option \<Rightarrow> budget option \<Rightarrow> string option
     \<Rightarrow> store \<Rightarrow> outcome"
where
  "updateProject e u projectId title description budget deadline s =
     (case project_findUnique s projectId of
        None \<Rightarrow> (Inl (AppError 404 ''Project not found''), s)
      | Some p \<Rightarrow>
         (if project_buyerId p \<noteq> user_id u
          then (Inl (AppError 403 ''You are not authorized to update this project''), s)
          else if project_status p \<noteq> PENDING
          then (Inl (AppError 400
                  ''Cannot update a project that is already in progress or completed''), s)
          else if truthy deadline \<and> parseDate e (the deadline) = None
          then (Inl DriverError, s)
          else (let updateData =
                      \<lparr>ud_title = (if truthy title then title else None),
                       ud_description = (if truthy description then description else None),
                       ud_budgetMin = (case budget of None \<Rightarrow> None | Some b \<Rightarrow> budget_min b),
                       ud_budgetMax = (case budget of None \<Rightarrow> None | Some b \<Rightarrow> budget_max b),
                       ud_deadline = (if truthy deadline then parseDate e (the deadline) else None)\<rparr>
                in case project_update projectId (applyProjectUpdate updateData) s of
                     None \<Rightarrow> (Inl DriverError, s)
                   | Some (updatedProject, s') \<Rightarrow> (Inr (200, ProjectJson updatedProject), s'))))"

definition deleteProject :: "user \<Rightarrow> ident \<Rightarrow> store \<Rightarrow> outcome" where
  "deleteProject u projectId s =
     (case project_findUnique s projectId of
        None \<Rightarrow> (Inl (AppError 404 ''Project not found''), s)
      | Some p \<Rightarrow>
         (if project_buyerId p \<noteq> user_id u
          then (Inl (AppError 403 ''You are not authorized to delete this project''), s)
          else if project_status p \<noteq> PENDING
          then (Inl (AppError 400
                  ''Cannot delete a project that is already in progress or completed''), s)
          else (case project_delete projectId s of
                  None \<Rightarrow> (Inl DriverError, s)
                | Some s' \<Rightarrow> (Inr (200, MessageJson ''Project deleted successfully''), s'))))"

definition sellerOf :: "store \<Rightarrow> bool \<Rightarrow> bid \<Rightarrow> sellerView option" where
  "sellerOf s withEmail b =
     map_option
       (\<lambda>u. \<lparr>sv_id = user_id u, sv_name = user_name u,
              sv_email = (if withEmail then Some (user_email u) else None)\<rparr>)
       (user_findUnique s (bid_sellerId b))"

definition getProjectBids :: "user \<Rightarrow> ident \<Rightarrow> store \<Rightarrow> outcome" where
  "getProjectBids u projectId s =
     (case project_findUnique s projectId of
        None \<Rightarrow> (Inl (AppError 404 ''Project not found''), s)
      | Some p \<Rightarrow>
         (let isOwner = (project_buyerId p = user_id u) in
          if \<not> isOwner \<and> user_role u \<noteq> SELLER
          then (Inl (AppError 403 ''You are not authorized to view these bids''), s)
          else if \<not> isOwner \<and> user_role u = SELLER \<and>
                  bid_findFirst s (\<lambda>b. bid_projectId b = projectId \<and> bid_sellerId b = user_id u) = None
          then (Inl (AppError 403 ''You are not authorized to view these bids''), s)
          else (Inr (200, BidsJson
                  (map (\<lambda>b. (b, sellerOf s isOwner b))
                     (orderByCreatedAtDesc
                        (bid_findMany s (\<lambda>b. bid_projectId b = projectId))))), s)))"

definition selectBid :: "user \<Rightarrow> ident \<Rightarrow> string option \<Rightarrow> string option \<Rightarrow> store \<Rightarrow> outcome" where
  "selectBid u projectId bidId sellerId s =
     (if \<not> truthy bidId \<or> \<not> truthy sellerId
      then (Inl (AppError 400 ''Bid ID and Seller ID are required''), s)
      else (case project_findUnique s projectId of
          None \<Rightarrow> (Inl (AppError 404 ''Project not found''), s)
        | Some p \<Rightarrow>
           (if project_buyerId p \<noteq> user_id u
            then (Inl (AppError 403 ''You are not authorized to select a bid for this project''), s)
            else if project_status p \<noteq> PENDING
            then (Inl (AppError 400
                    ''Cannot select a bid for a project that is already in progress or completed''), s)
            else (case bid_findFirst s (\<lambda>b. bid_id b = the bidId \<and> bid_projectId b = projectId \<and>
                                           bid_sellerId b = the sellerId) of
                None \<Rightarrow> (Inl (AppError 404 ''Bid not found or does not match the project''), s)
              | Some b \<Rightarrow>
                 (case project_update projectId
                         (\<lambda>q. q\<lparr>project_status := IN_PROGRESS, project_sellerId := sellerId\<rparr>) s of
                    None \<Rightarrow> (Inl DriverError, s)
                  | Some (updatedProject, s1) \<Rightarrow>
                     (case bid_update (the bidId) (\<lambda>c. c\<lparr>bid_status := ACCEPTED\<rparr>) s1 of
                        None \<Rightarrow> (Inl DriverError, s1)
                      | Some (acceptedBid, s2) \<Rightarrow>
                         (let s3 = bid_updateMany
                                     (\<lambda>c. bid_projectId c = projectId \<and> bid_id c \<noteq> the bidId)
                                     (\<lambda>c. c\<lparr>bid_status := REJECTED\<rparr>) s2
                          in (Inr (200, ProjectJson updatedProject), s3))))))))"

definition completeProject :: "user \<Rightarrow> ident \<Rightarrow> store \<Rightarrow> outcome" where
  "completeProject u projectId s =
     (case project_findUnique s projectId of
        None \<Rightarrow> (Inl (AppError 404 ''Project not found''), s)
      | Some p \<Rightarrow>
         (if project_buyerId p \<noteq> user_id u
          then (Inl (AppError 403 ''Only the project owner can mark it as completed''), s)
          else if project_status p \<noteq> IN_PROGRESS
          then (Inl (AppError 400
                  ''Only projects that are in progress can be marked as completed''), s)
          else (case project_update projectId (\<lambda>q. q\<lparr>project_status := COMPLETED\<rparr>) s of
                  None \<Rightarrow> (Inl DriverError, s)
                | Some (updatedProject, s') \<Rightarrow> (Inr (200, ProjectJson updatedProject), s'))))"

text \<open>
  The loop of \<open>uploadProjectFiles\<close>: one \<open>file.create\<close> per uploaded file, each paired
  with the key the database gives the row; the first failing create ends the loop with
  the rows created so far in place.
\<close>

fun createFileRecords :: "ident \<Rightarrow> (upload \<times> ident) list \<Rightarrow> store \<Rightarrow> failure option \<times> store" where
  "createFileRecords projectId [] s = (None, s)"
| "createFileRecords projectId ((f, newId) # rest) s =
     (case file_create \<lparr>file_id = newId, file_name = up_originalname f, file_path = up_path f,
                        file_size = up_size f, file_mimeType = up_mimetype f,
                        file_projectId = projectId\<rparr> s of
        None \<Rightarrow> (Some DriverError, s)
      | Some s' \<Rightarrow> createFileRecords projectId rest s')"

definition lastSegment :: "string \<Rightarrow> string" where
  "lastSegment p = rev (takeWhile (\<lambda>c. c \<noteq> CHR ''/'') (rev p))"

definition formatFile :: "fileRow \<Rightarrow> fileView" where
  "formatFile f =
     \<lparr>fv_id = file_id f, fv_name = file_name f, fv_url = ''/uploads/'' @ lastSegment (file_path f),
      fv_size = file_size f, fv_mimeType = file_mimeType f\<rparr>"

definition uploadProjectFiles :: "user \<Rightarrow> ident \<Rightarrow> (upload \<times> ident) list \<Rightarrow> store \<Rightarrow> outcome" where
  "uploadProjectFiles u projectId reqFiles s =
     (case project_findUnique s projectId of
        None \<Rightarrow> (Inl (AppError 404 ''Project not found''), s)
      | Some p \<Rightarrow>
         (if \<not> (user_id u = project_buyerId p \<or>
                 (truthy (project_sellerId p) \<and> Some (user_id u) = project_sellerId p))
          then (Inl (AppError 403 ''You are not authorized to upload files to this project''), s)
          else if reqFiles = []
          then (Inl (AppError 400 ''No files uploaded''), s)
          else (case createFileRecords projectId reqFiles s of
                  (Some err, s') \<Rightarrow> (Inl err, s')
                | (None, s') \<Rightarrow>
                   (case project_findUnique s' projectId of
                      None \<Rightarrow> (Inl DriverError, s')
                    | Some updatedProject \<Rightarrow>
                       (Inr (200, ProjectFilesJson updatedProject
                               (map formatFile (file_findMany s' projectId))), s')))))"

section \<open>Bid controller\<close>

text \<open>
  The amount and the delivery time arrive as JSON numbers, on which \<open>parseFloat\<close> and
  \<open>parseInt\<close> are the identity. A bid row read with \<open>include: project\<close> carries its
  project; a bid whose project row is missing makes the handler's read of
  \<open>bid.project.status\<close> throw. A new bid gets its key and its creation time from the
  database.
\<close>

definition createBid ::
  "user \<Rightarrow> string option \<Rightarrow> rat option \<Rightarrow> int option \<Rightarrow> string option \<Rightarrow> ident \<Rightarrow> date
     \<Rightarrow> store \<Rightarrow> outcome"
where
  "createBid u projectId amount deliveryTime message newId now s =
     (if user_role u \<noteq> SELLER then (Inl (AppError 403 ''Only sellers can create bids''), s)
      else if \<not> truthy projectId \<or> \<not> truthyNum amount \<or> \<not> truthyNum deliveryTime \<or> \<not> truthy message
      then (Inl (AppError 400 ''All fields are required''), s)
      else (case project_findUnique s (the projectId) of
          None \<Rightarrow> (Inl (AppError 404 ''Project not found''), s)
        | Some p \<Rightarrow>
           (if project_status p \<noteq> PENDING
            then (Inl (AppError 400
                    ''Cannot bid on a project that is already in progress or completed''), s)
            else (case bid_findFirst s (\<lambda>b. bid_projectId b = the projectId \<and>
                                           bid_sellerId b = user_id u) of
                Some existingBid \<Rightarrow>
                  (Inl (AppError 400 ''You have already placed a bid on this project''), s)
              | None \<Rightarrow>
                 (let b = \<lparr>bid_id = newId, bid_amount = the amount,
                           bid_deliveryTime = the deliveryTime, bid_message = the message,
                           bid_status = BID_PENDING, bid_projectId = the projectId,
                           bid_sellerId = user_id u, bid_createdAt = now\<rparr>
                  in case bid_create b s of
                       None \<Rightarrow> (Inl DriverError, s)
                     | Some s' \<Rightarrow> (Inr (201, BidJson b), s'))))))"

record bidUpdateData =
  ud_amount :: "rat option"
  ud_deliveryTime :: "int option"
  ud_message :: "string option"

definition applyBidUpdate :: "bidUpdateData \<Rightarrow> bid \<Rightarrow> bid" where
  "applyBidUpdate d b =
     b\<lparr>bid_amount := (case ud_amount d of None \<Rightarrow> bid_amount b | Some v \<Rightarrow> v),
       bid_deliveryTime := (case ud_deliveryTime d of None \<Rightarrow> bid_deliveryTime b | Some v \<Rightarrow> v),
       bid_message := (case ud_message d of None \<Rightarrow> bid_message b | Some v \<Rightarrow> v)\<rparr>"

definition updateBid ::
  "user \<Rightarrow> ident \<Rightarrow> rat option \<Rightarrow> int option \<Rightarrow> string option \<Rightarrow> store \<Rightarrow> outcome"
where
  "updateBid u bidId amount deliveryTime message s =
     (case bid_findUnique s bidId of
        None \<Rightarrow> (Inl (AppError 404 ''Bid not found''), s)
      | Some b \<Rightarrow>
         (if bid_sellerId b \<noteq> user_id u
          then (Inl (AppError 403 ''You are not authorized to update this bid''), s)
          else (case project_findUnique s (bid_projectId b) of
              None \<Rightarrow> (if bid_status b \<noteq> BID_PENDING
                        then (Inl (AppError 400
                                ''Cannot update a bid that has already been accepted or rejected''), s)
                        else (Inl DriverError, s))
            | Some p \<Rightarrow>
               (if bid_status b \<noteq> BID_PENDING \<or> project_status p \<noteq> PENDING
                then (Inl (AppError 400
                        ''Cannot update a bid that has already been accepted or rejected''), s)
                else (let updateData =
                            \<lparr>ud_amount = (if truthyNum amount then amount else None),
                             ud_deliveryTime = (if truthyNum deliveryTime then deliveryTime else None),
                             ud_message = (if truthy message then message else None)\<rparr>
                      in case bid_update bidId (applyBidUpdate updateData) s of
                           None \<Rightarrow> (Inl DriverError, s)
                         | Some (updatedBid, s') \<Rightarrow> (Inr (200, BidJson updatedBid), s'))))))"

definition deleteBid :: "user \<Rightarrow> ident \<Rightarrow> store \<Rightarrow> outcome" where
  "deleteBid u bidId s =
     (case bid_findUnique s bidId of
        None \<Rightarrow> (Inl (AppError 404 ''Bid not found''), s)
      | Some b \<Rightarrow>
         (if bid_sellerId b \<noteq> user_id u
          then (Inl (AppError 403 ''You are not authorized to delete this bid''), s)
          else (case project_findUnique s (bid_projectId b) of
              None \<Rightarrow> (if bid_status b \<noteq> BID_PENDING
                        then (Inl (AppError 400
                                ''Cannot delete a bid that has already been accepted or rejected''), s)
                        else (Inl DriverError, s))
            | Some p \<Rightarrow>
               (if bid_status b \<noteq> BID_PENDING \<or> project_status p \<noteq> PENDING
                then (Inl (AppError 400
                        ''Cannot delete a bid that has already been accepted or rejected''), s)
                else (case bid_delete bidId s of
                        None \<Rightarrow> (Inl DriverError, s)
                      | Some s' \<Rightarrow> (Inr (200, MessageJson ''Bid deleted successfully''), s'))))))"

section \<open>Routes\<close>

text \<open>
  A request names its route, carries the Authorization header where the router runs
  \<open>authenticate\<close>, the route parameter, the fields of the body and, for a route that
  creates rows, the keys (and for a bid the creation time) the database gives them.
  \<open>exec\<close> runs the middleware of the
  route in the router's order and then the handler. The read-only routes other than the
  bid list of a project are not modelled.
\<close>

datatype request =
    Register "json option" "json option" "json option" "json option" ident
  | Login "string option" "string option"
  | CreateProject "string option" "string option" "string option" "budget option" "string option" ident
  | UpdateProject "string option" ident "string option" "string option" "budget option" "string option"
  | DeleteProject "string option" ident
  | GetProjectBids "string option" ident
  | SelectBid "string option" ident "string option" "string option"
  | CompleteProject "string option" ident
  | UploadProjectFiles "string option" ident "(upload \<times> ident) list"
  | CreateBid "string option" "string option" "rat option" "int option" "string option" ident date
  | UpdateBid "string option" ident "rat option" "int option" "string option"
  | DeleteBid "string option" ident

definition withUser :: "env \<Rightarrow> string option \<Rightarrow> store \<Rightarrow> (user \<Rightarrow> outcome) \<Rightarrow> outcome" where
  "withUser e authHeader s k =
     (case authenticate e authHeader s of Inl err \<Rightarrow> (Inl err, s) | Inr u \<Rightarrow> k u)"

definition guarded :: "failure option \<Rightarrow> store \<Rightarrow> outcome \<Rightarrow> outcome" where
  "guarded g s k = (case g of Some err \<Rightarrow> (Inl err, s) | None \<Rightarrow> k)"

fun exec :: "env \<Rightarrow> request \<Rightarrow> store \<Rightarrow> outcome" where
  "exec e (Register name email password role newId) s = register e name email password role newId s"
| "exec e (Login email password) s = login e email password s"
| "exec e (CreateProject h title description budget deadline newId) s =
     withUser e h s (\<lambda>u. guarded (requireBuyer u) s
       (createProject e u title description budget deadline newId s))"
| "exec e (UpdateProject h projectId title description budget deadline) s =
     withUser e h s (\<lambda>u. guarded (requireProjectOwner u projectId s) s
       (updateProject e u projectId title description budget deadline s))"
| "exec e (DeleteProject h projectId) s =
     withUser e h s (\<lambda>u. guarded (requireProjectOwner u projectId s) s
       (deleteProject u projectId s))"
| "exec e (GetProjectBids h projectId) s =
     withUser e h s (\<lambda>u. getProjectBids u projectId s)"
| "exec e (SelectBid h projectId bidId sellerId) s =
     withUser e h s (\<lambda>u. guarded (requireProjectOwner u projectId s) s
       (selectBid u projectId bidId sellerId s))"
| "exec e (CompleteProject h projectId) s =
     withUser e h s (\<lambda>u. guarded (requireProjectOwner u projectId s) s
       (completeProject u projectId s))"
| "exec e (UploadProjectFiles h projectId reqFiles) s =
     withUser e h s (\<lambda>u. uploadProjectFiles u projectId reqFiles s)"
| "exec e (CreateBid h projectId amount deliveryTime message newId now) s =
     withUser e h s (\<lambda>u. guarded (requireSeller u) s
       (createBid u projectId amount deliveryTime message newId now s))"
| "exec e (UpdateBid h bidId amount deliveryTime message) s =
     withUser e h s (\<lambda>u. guarded (requireSeller u) s
       (updateBid u bidId amount deliveryTime message s))"
| "exec e (DeleteBid h bidId) s =
     withUser e h s (\<lambda>u. guarded (requireSeller u) s (deleteBid u bidId s))"

text \<open>The store after a sequence of requests, served one after the other.\<close>

fun run :: "env \<Rightarrow> request list \<Rightarrow> store \<Rightarrow> store" where
  "run e [] s = s"
| "run e (r # rs) s = run e rs (snd (exec e r s))"

section \<open>A concrete marketplace\<close>

text \<open>
  A stand-in for the runtime's \<open>toUpperCase\<close>: the case mapping of the ASCII letters,
  which is what the runtime does on the ASCII strings evaluated below.
\<close>

definition asciiUpperChar :: "char \<Rightarrow> char" where
  "asciiUpperChar c =
     (case map_of (zip ''abcdefghijklmnopqrstuvwxyz'' ''ABCDEFGHIJKLMNOPQRSTUVWXYZ'') c of
        None \<Rightarrow> c | Some d \<Rightarrow> d)"

definition asciiUpper :: "string \<Rightarrow> string" where
  "asciiUpper str = map asciiUpperChar str"

text \<open>
  The scenario of the specification as data: buyer Ann, sellers Bob, Cat and Eve, Ann's
  project with a budget of 100 to 200, Bob's bid of 150 and Cat's bid of 180, Eve with
  no bid; the same store after Ann has selected Bob's bid, and after she has marked the
  project completed; and
  stand-ins for the external primitives. The closed theorems below evaluate the
  handlers on them.
\<close>

definition env0 :: env where
  "env0 = \<lparr>bcrypt_hash = (\<lambda>p. CHR ''#'' # p),
           bcrypt_compare = (\<lambda>p h. h = CHR ''#'' # p),
           jwt_sign = (\<lambda>i r. Some (''t:'' @ i)),
           jwt_verify = (\<lambda>t. if take 2 t = ''t:'' then Decoded (drop 2 t) else JsonWebTokenError),
           parseDate = (\<lambda>d. if d = ''never'' then None else Some (int (length d))),
           toUpperCase = asciiUpper\<rparr>"

definition buyerB :: user where
  "buyerB = \<lparr>user_id = ''u1'', user_email = ''ann@x.io'', user_password = ''#pw1'',
             user_name = ''Ann'', user_role = BUYER, user_avatar = None\<rparr>"

definition sellerS1 :: user where
  "sellerS1 = \<lparr>user_id = ''u2'', user_email = ''bob@x.io'', user_password = ''#pw2'',
               user_name = ''Bob'', user_role = SELLER, user_avatar = None\<rparr>"

definition sellerS2 :: user where
  "sellerS2 = \<lparr>user_id = ''u3'', user_email = ''cat@x.io'', user_password = ''#pw3'',
               user_name = ''Cat'', user_role = SELLER, user_avatar = None\<rparr>"

definition sellerS3 :: user where
  "sellerS3 = \<lparr>user_id = ''u5'', user_email = ''eve@x.io'', user_password = ''#pw5'',
               user_name = ''Eve'', user_role = SELLER, user_avatar = None\<rparr>"

definition projectP :: project where
  "projectP = \<lparr>project_id = ''p1'', project_title = ''Logo'', project_description = ''A logo'',
               project_budgetMin = 100, project_budgetMax = 200, project_deadline = 7,
               project_status = PENDING, project_buyerId = ''u1'', project_sellerId = None\<rparr>"

definition bidS1 :: bid where
  "bidS1 = \<lparr>bid_id = ''b1'', bid_amount = 150, bid_deliveryTime = 3, bid_message = ''3 days'',
            bid_status = BID_PENDING, bid_projectId = ''p1'', bid_sellerId = ''u2'',
            bid_createdAt = 10\<rparr>"

definition bidS2 :: bid where
  "bidS2 = \<lparr>bid_id = ''b2'', bid_amount = 180, bid_deliveryTime = 5, bid_message = ''5 days'',
            bid_status = BID_PENDING, bid_projectId = ''p1'', bid_sellerId = ''u3'',
            bid_createdAt = 20\<rparr>"

definition storeOpen :: store where
  "storeOpen = \<lparr>users = [buyerB, sellerS1, sellerS2, sellerS3], projects = [projectP],
                bids = [bidS1, bidS2], files = []\<rparr>"

definition storeAwarded :: store where
  "storeAwarded = \<lparr>users = [buyerB, sellerS1, sellerS2, sellerS3],
                   projects = [projectP\<lparr>project_status := IN_PROGRESS, project_sellerId := Some ''u2''\<rparr>],
                   bids = [bidS1\<lparr>bid_status := ACCEPTED\<rparr>, bidS2\<lparr>bid_status := REJECTED\<rparr>],
                   files = []\<rparr>"

definition storeDone :: store where
  "storeDone = \<lparr>users = [buyerB, sellerS1, sellerS2, sellerS3],
                projects = [projectP\<lparr>project_status := COMPLETED, project_sellerId := Some ''u2''\<rparr>],
                bids = [bidS1\<lparr>bid_status := ACCEPTED\<rparr>, bidS2\<lparr>bid_status := REJECTED\<rparr>],
                files = []\<rparr>"

definition envNoSecret :: env where
  "envNoSecret = env0\<lparr>jwt_sign := (\<lambda>i r. None)\<rparr>"

section \<open>Properties of a store\<close>

text \<open>
  What the foreign keys and the handlers' checks maintain: the buyer of every project is
  a stored user with role BUYER, the seller of every bid is a stored user with role
  SELLER, bid ids are distinct, and no two bids share project and seller. \<open>forwardStep\<close>
  relates a project (or its absence) before a request to the same project after it: a
  project appears as PENDING, disappears only while PENDING, and otherwise keeps its
  status or moves one step along PENDING, IN_PROGRESS, COMPLETED.
\<close>

definition ownersAreBuyers :: "store \<Rightarrow> bool" where
  "ownersAreBuyers s =
     (\<forall>p \<in> set (projects s).
        case user_findUnique s (project_buyerId p) of None \<Rightarrow> False | Some u \<Rightarrow> user_role u = BUYER)"

definition biddersAreSellers :: "store \<Rightarrow> bool" where
  "biddersAreSellers s =
     (\<forall>b \<in> set (bids s).
        case user_findUnique s (bid_sellerId b) of None \<Rightarrow> False | Some u \<Rightarrow> user_role u = SELLER)"

definition oneBidPerSeller :: "store \<Rightarrow> bool" where
  "oneBidPerSeller s = distinct (map (\<lambda>b. (bid_projectId b, bid_sellerId b)) (bids s))"

definition consistent :: "store \<Rightarrow> bool" where
  "consistent s =
     (distinct (map bid_id (bids s)) \<and> oneBidPerSeller s \<and> ownersAreBuyers s \<and> biddersAreSellers s)"

definition forwardStep :: "project option \<Rightarrow> project option \<Rightarrow> bool" where
  "forwardStep before after =
     (case before of
        None \<Rightarrow> (case after of None \<Rightarrow> True | Some q \<Rightarrow> project_status q = PENDING)
      | Some p \<Rightarrow>
         (case after of
            None \<Rightarrow> project_status p = PENDING
          | Some q \<Rightarrow>
             project_status q = project_status p \<or>
             (project_status p = PENDING \<and> project_status q = IN_PROGRESS) \<or>
             (project_status p = IN_PROGRESS \<and> project_status q = COMPLETED)))"

section \<open>Lemmas on the queries\<close>

lemmas fixtures =
  env0_def buyerB_def sellerS1_def sellerS2_def sellerS3_def projectP_def bidS1_def bidS2_def storeOpen_def
  storeAwarded_def storeDone_def

lemma find_member: "x \<in> set xs \<Longrightarrow> P x \<Longrightarrow> \<exists>y. find P xs = Some y"
  by (cases "find P xs") (auto simp: find_None_iff)

lemma find_map_key:
  "(\<And>c. k (g c) = k c) \<Longrightarrow> find (\<lambda>x. k x = i) (map g xs) = map_option g (find (\<lambda>x. k x = i) xs)"
  by (induction xs) auto

lemma find_filter_key:
  "find (\<lambda>x. k x = i) (filter (\<lambda>q. k q \<noteq> j) xs) = (if i = j then None else find (\<lambda>x. k x = i) xs)"
  by (induction xs) auto

lemma find_append_one:
  "find P (xs @ [x]) = (case find P xs of None \<Rightarrow> (if P x then Some x else None) | Some y \<Rightarrow> Some y)"
  by (induction xs) auto

lemma filter_key_distinct:
  "distinct (map k xs) \<Longrightarrow> x \<in> set xs \<Longrightarrow> filter (\<lambda>c. k c = k x \<and> Q c) xs = (if Q x then [x] else [])"
  by (induction xs) (auto simp: filter_empty_conv image_iff)

lemma find_key_distinct:
  "distinct (map k xs) \<Longrightarrow> x \<in> set xs \<Longrightarrow> find (\<lambda>c. k c = k x) xs = Some x"
  by (induction xs) (auto simp: image_iff)

lemma find_SomeD: "find P xs = Some x \<Longrightarrow> x \<in> set xs \<and> P x"
  by (auto simp: find_Some_iff)


lemma find_map_other:
  "i \<noteq> j \<Longrightarrow> (\<And>c. k (f c) = k c)
    \<Longrightarrow> find (\<lambda>x. k x = i) (map (\<lambda>q. if k q = j then f q else q) xs) = find (\<lambda>x. k x = i) xs"
  by (induction xs) auto

lemma authenticate_user:
  "authenticate e h s = Inr u \<Longrightarrow> user_findUnique s (user_id u) = Some u"
  by (auto simp: authenticate_def Let_def user_findUnique_def
           split: if_splits jwt_result.splits option.splits dest: find_SomeD)

section \<open>Registration and login\<close>

lemma register_fields_required:
  "\<not> truthyJson name \<or> \<not> truthyJson email \<or> \<not> truthyJson password \<or> \<not> truthyJson role
    \<Longrightarrow> register e name email password role newId s = (Inl (AppError 400 ''All fields are required''), s)"
  by (simp add: register_def)

lemma register_role_not_string:
  "truthyJson name \<Longrightarrow> truthyJson email \<Longrightarrow> truthyJson password \<Longrightarrow> truthyJson role
    \<Longrightarrow> asString role = None
    \<Longrightarrow> register e name email password role newId s = (Inl DriverError, s)"
  by (simp add: register_def)

lemma register_role_check:
  "truthyJson name \<Longrightarrow> truthyJson email \<Longrightarrow> truthyJson password \<Longrightarrow> truthyJson role
    \<Longrightarrow> asString role = Some r \<Longrightarrow> toUpperCase e r \<notin> {''BUYER'', ''SELLER''}
    \<Longrightarrow> register e name email password role newId s
          = (Inl (AppError 400 ''Role must be either BUYER or SELLER''), s)"
  by (simp add: register_def)

lemma register_conflict:
  "truthyJson name \<Longrightarrow> truthyJson email \<Longrightarrow> truthyJson password \<Longrightarrow> truthyJson role
    \<Longrightarrow> asString role = Some r \<Longrightarrow> toUpperCase e r \<in> {''BUYER'', ''SELLER''}
    \<Longrightarrow> asString email = Some em \<Longrightarrow> user_findUnique_email s em = Some y
    \<Longrightarrow> register e name email password role newId s
          = (Inl (AppError 409 ''User with this email already exists''), s)"
  by (simp add: register_def)

lemma register_success_shape:
  "register e name email password role newId s = (Inr r, s')
    \<Longrightarrow> truthyJson name \<and> truthyJson email \<and> truthyJson password \<and> truthyJson role
        \<and> (\<exists>ro. asString role = Some ro \<and> toUpperCase e ro \<in> {''BUYER'', ''SELLER''})
        \<and> (\<exists>em u. asString email = Some em \<and> s' = s\<lparr>users := users s @ [u]\<rparr>
               \<and> user_email u = em \<and> user_id u = newId
               \<and> newId \<notin> set (map user_id (users s)))"
  unfolding register_def Let_def user_create_def
  by (simp split: if_splits option.splits) fastforce

lemma asString_JStr: "asString x = Some str \<longleftrightarrow> x = Some (JStr str)"
  by (cases "(x)" rule: asString.cases) auto

text \<open>
  C3 (as amended). When a user with email e is already stored, register with email e
  creates no user: the store is returned as it was. The request fails with VALIDATION
  (400) when one of name, email, password, role is not present (absent, null, false,
  zero or empty) and when the role is a string whose upper-case form is neither BUYER
  nor SELLER, with an internal error (no status code, answered 500) when the four
  fields are present and the role is not a string, and with CONFLICT (409) in every
  other case, that is when the four fields are present and the role is a string whose
  upper-case form is BUYER or SELLER.
  In particular a registration that succeeded, sent again with the same fields, fails
  with CONFLICT.
\<close>

theorem register_existing_email:
  assumes "x \<in> set (users s)" and "email = Some (JStr (user_email x))"
  shows "snd (register e name email password role newId s) = s
       \<and> (\<not> truthyJson name \<or> \<not> truthyJson email \<or> \<not> truthyJson password \<or> \<not> truthyJson role
          \<longrightarrow> register e name email password role newId s
                = (Inl (AppError 400 ''All fields are required''), s))
       \<and> (truthyJson name \<and> truthyJson email \<and> truthyJson password \<and> truthyJson role
            \<and> asString role = None
          \<longrightarrow> register e name email password role newId s = (Inl DriverError, s))
       \<and> (truthyJson name \<and> truthyJson email \<and> truthyJson password \<and> truthyJson role
            \<and> (\<exists>r. asString role = Some r \<and> toUpperCase e r \<notin> {''BUYER'', ''SELLER''})
          \<longrightarrow> register e name email password role newId s
                = (Inl (AppError 400 ''Role must be either BUYER or SELLER''), s))
       \<and> (truthyJson name \<and> truthyJson email \<and> truthyJson password \<and> truthyJson role
            \<and> (\<exists>r. asString role = Some r \<and> toUpperCase e r \<in> {''BUYER'', ''SELLER''})
          \<longrightarrow> register e name email password role newId s
                = (Inl (AppError 409 ''User with this email already exists''), s))
       \<and> (\<forall>r0 s0 newId0. register e name email password role newId0 s0 = (Inr r0, s)
          \<longrightarrow> register e name email password role newId s
                = (Inl (AppError 409 ''User with this email already exists''), s))"
proof -
  have em: "asString email = Some (user_email x)"
    using assms(2) by simp
  obtain y where y: "user_findUnique_email s (user_email x) = Some y"
    using assms(1) find_member [of x "users s" "\<lambda>u. user_email u = user_email x"]
    by (auto simp: user_findUnique_email_def)
  have c: "truthyJson name \<and> truthyJson email \<and> truthyJson password \<and> truthyJson role
            \<and> (\<exists>r. asString role = Some r \<and> toUpperCase e r \<in> {''BUYER'', ''SELLER''})
          \<longrightarrow> register e name email password role newId s
                = (Inl (AppError 409 ''User with this email already exists''), s)"
    using register_conflict [OF _ _ _ _ _ _ em y] by blast
  have unchanged: "snd (register e name email password role newId s) = s"
    using em y by (simp add: register_def split: option.splits)
  have again: "\<forall>r0 s0 newId0. register e name email password role newId0 s0 = (Inr r0, s)
          \<longrightarrow> register e name email password role newId s
                = (Inl (AppError 409 ''User with this email already exists''), s)"
    using c by (blast dest: register_success_shape)
  from unchanged c again show ?thesis
    using register_fields_required [of name email password role e newId s]
      register_role_not_string [of name email password role e newId s]
      register_role_check [of name email password role _ e newId s]
    by blast
qed

theorem register_existing_email_witness:
  "buyerB \<in> set (users storeOpen)
   \<and> register env0 (Some (JStr ''Ann'')) (Some (JStr ''ann@x.io'')) (Some (JStr ''pw1''))
        (Some (JStr ''BUYER'')) ''u9'' storeOpen
       = (Inl (AppError 409 ''User with this email already exists''), storeOpen)
   \<and> register env0 None (Some (JStr ''ann@x.io'')) (Some (JStr ''pw1''))
        (Some (JStr ''BUYER'')) ''u9'' storeOpen
       = (Inl (AppError 400 ''All fields are required''), storeOpen)
   \<and> register env0 (Some (JStr ''Ann'')) (Some (JStr ''ann@x.io'')) (Some (JStr ''pw1''))
        (Some (JStr ''admin'')) ''u9'' storeOpen
       = (Inl (AppError 400 ''Role must be either BUYER or SELLER''), storeOpen)
   \<and> register env0 (Some (JStr ''Ann'')) (Some (JStr ''ann@x.io'')) (Some (JStr ''pw1''))
        (Some (JNum 5)) ''u9'' storeOpen
       = (Inl DriverError, storeOpen)"
proof -
  have m: "buyerB \<in> set (users storeOpen)"
    by (simp add: storeOpen_def)
  have q: "Some (JStr ''ann@x.io'') = Some (JStr (user_email buyerB))"
    by (simp add: buyerB_def)
  have u1: "toUpperCase env0 ''BUYER'' = ''BUYER''"
    by (simp add: env0_def asciiUpper_def asciiUpperChar_def)
  have u2: "toUpperCase env0 ''admin'' = ''ADMIN''"
    by (simp add: env0_def asciiUpper_def asciiUpperChar_def)
  have r1: "register env0 (Some (JStr ''Ann'')) (Some (JStr ''ann@x.io'')) (Some (JStr ''pw1''))
        (Some (JStr ''BUYER'')) ''u9'' storeOpen
       = (Inl (AppError 409 ''User with this email already exists''), storeOpen)"
    using register_existing_email [OF m q, of env0 "Some (JStr ''Ann'')" "Some (JStr ''pw1'')"
         "Some (JStr ''BUYER'')" "''u9''"] u1
    by simp
  have r2: "register env0 None (Some (JStr ''ann@x.io'')) (Some (JStr ''pw1''))
        (Some (JStr ''BUYER'')) ''u9'' storeOpen
       = (Inl (AppError 400 ''All fields are required''), storeOpen)"
    using register_existing_email [OF m q, of env0 None "Some (JStr ''pw1'')"
         "Some (JStr ''BUYER'')" "''u9''"]
    by simp
  have r3: "register env0 (Some (JStr ''Ann'')) (Some (JStr ''ann@x.io'')) (Some (JStr ''pw1''))
        (Some (JStr ''admin'')) ''u9'' storeOpen
       = (Inl (AppError 400 ''Role must be either BUYER or SELLER''), storeOpen)"
    using register_existing_email [OF m q, of env0 "Some (JStr ''Ann'')" "Some (JStr ''pw1'')"
         "Some (JStr ''admin'')" "''u9''"] u2
    by simp
  have r4: "register env0 (Some (JStr ''Ann'')) (Some (JStr ''ann@x.io'')) (Some (JStr ''pw1''))
        (Some (JNum 5)) ''u9'' storeOpen
       = (Inl DriverError, storeOpen)"
    using register_existing_email [OF m q, of env0 "Some (JStr ''Ann'')" "Some (JStr ''pw1'')"
         "Some (JNum 5)" "''u9''"]
    by simp
  from m r1 r2 r3 r4 show ?thesis
    by (simp only: simp_thms)
qed

text \<open>
  The claim as stated fails where the request is not valid: Ann's email is taken, and a
  registration with that email and no name is answered 400 "All fields are required",
  not 409.
\<close>

theorem register_existing_email_counterexample:
  "user_findUnique_email storeOpen ''ann@x.io'' = Some buyerB
   \<and> register env0 None (Some (JStr ''ann@x.io'')) (Some (JStr ''pw1'')) (Some (JStr ''BUYER''))
        ''u9'' storeOpen
       = (Inl (AppError 400 ''All fields are required''), storeOpen)
   \<and> fst (register env0 None (Some (JStr ''ann@x.io'')) (Some (JStr ''pw1''))
            (Some (JStr ''BUYER'')) ''u9'' storeOpen)
       \<noteq> Inl (AppError 409 ''User with this email already exists'')"
  by (simp add: register_def user_findUnique_email_def fixtures)

text \<open>
  C4 (as amended). A register request in which name, email, password or role is not
  present (absent, null, false, zero or empty) fails with VALIDATION (400, "All fields
  are required"). A request with the four fields present whose role is a string with
  an upper-case form other than BUYER and SELLER fails with VALIDATION (400, "Role must
  be either BUYER or SELLER"). A request with the four fields present whose role is not
  a string fails with an internal error (no status code, answered 500). In the three
  cases the store is returned unchanged, so no user is created.
\<close>

theorem register_validation:
  "(\<not> truthyJson name \<or> \<not> truthyJson email \<or> \<not> truthyJson password \<or> \<not> truthyJson role
      \<longrightarrow> register e name email password role newId s
            = (Inl (AppError 400 ''All fields are required''), s))
   \<and> (truthyJson name \<and> truthyJson email \<and> truthyJson password \<and> truthyJson role
        \<and> (\<exists>r. asString role = Some r \<and> toUpperCase e r \<notin> {''BUYER'', ''SELLER''})
      \<longrightarrow> register e name email password role newId s
            = (Inl (AppError 400 ''Role must be either BUYER or SELLER''), s))
   \<and> (truthyJson name \<and> truthyJson email \<and> truthyJson password \<and> truthyJson role
        \<and> asString role = None
      \<longrightarrow> register e name email password role newId s = (Inl DriverError, s))"
  using register_fields_required [of name email password role e newId s]
    register_role_not_string [of name email password role e newId s]
    register_role_check [of name email password role _ e newId s]
  by blast

theorem register_validation_witness:
  "\<not> truthyJson None
   \<and> register env0 (Some (JStr ''Dan'')) (Some (JStr ''dan@x.io'')) (Some (JStr ''pw4'')) None
        ''u4'' storeOpen
       = (Inl (AppError 400 ''All fields are required''), storeOpen)
   \<and> toUpperCase env0 ''admin'' \<notin> {''BUYER'', ''SELLER''}
   \<and> register env0 (Some (JStr ''Dan'')) (Some (JStr ''dan@x.io'')) (Some (JStr ''pw4''))
        (Some (JStr ''admin'')) ''u4'' storeOpen
       = (Inl (AppError 400 ''Role must be either BUYER or SELLER''), storeOpen)
   \<and> truthyJson (Some (JNum 5)) \<and> asString (Some (JNum 5)) = None
   \<and> register env0 (Some (JStr ''Dan'')) (Some (JStr ''dan@x.io'')) (Some (JStr ''pw4''))
        (Some (JNum 5)) ''u4'' storeOpen
       = (Inl DriverError, storeOpen)"
proof -
  have a: "\<not> truthyJson None"
    by simp
  have b: "truthyJson (Some (JStr ''Dan'')) \<and> truthyJson (Some (JStr ''dan@x.io''))
           \<and> truthyJson (Some (JStr ''pw4'')) \<and> truthyJson (Some (JStr ''admin''))"
    by simp
  have c: "toUpperCase env0 ''admin'' \<notin> {''BUYER'', ''SELLER''}"
    by (simp add: env0_def asciiUpper_def asciiUpperChar_def)
  have d: "asString (Some (JStr ''admin'')) = Some ''admin''"
    by simp
  have n: "truthyJson (Some (JNum 5)) \<and> asString (Some (JNum 5)) = None"
    by simp
  have r1: "register env0 (Some (JStr ''Dan'')) (Some (JStr ''dan@x.io'')) (Some (JStr ''pw4'')) None
        ''u4'' storeOpen
       = (Inl (AppError 400 ''All fields are required''), storeOpen)"
    using register_validation [of "Some (JStr ''Dan'')" "Some (JStr ''dan@x.io'')"
         "Some (JStr ''pw4'')" None env0 "''u4''" storeOpen] a
    by simp
  have r2: "register env0 (Some (JStr ''Dan'')) (Some (JStr ''dan@x.io'')) (Some (JStr ''pw4''))
        (Some (JStr ''admin'')) ''u4'' storeOpen
       = (Inl (AppError 400 ''Role must be either BUYER or SELLER''), storeOpen)"
    using register_validation [of "Some (JStr ''Dan'')" "Some (JStr ''dan@x.io'')"
         "Some (JStr ''pw4'')" "Some (JStr ''admin'')" env0 "''u4''" storeOpen] b c d
    by simp
  have r3: "register env0 (Some (JStr ''Dan'')) (Some (JStr ''dan@x.io'')) (Some (JStr ''pw4''))
        (Some (JNum 5)) ''u4'' storeOpen
       = (Inl DriverError, storeOpen)"
    using register_validation [of "Some (JStr ''Dan'')" "Some (JStr ''dan@x.io'')"
         "Some (JStr ''pw4'')" "Some (JNum 5)" env0 "''u4''" storeOpen] b n
    by simp
  from a r1 c r2 n r3 show ?thesis
    by (simp only: simp_thms)
qed

text \<open>
  The claim as stated fails on the letter case of the role: the role "buyer" is not one
  of the strings BUYER and SELLER, and the handler, which compares the role in upper
  case, registers the user as a BUYER.
\<close>

theorem register_validation_counterexample:
  "''buyer'' \<notin> {''BUYER'', ''SELLER''}
   \<and> register env0 (Some (JStr ''Dan'')) (Some (JStr ''dan@x.io'')) (Some (JStr ''pw4''))
        (Some (JStr ''buyer'')) ''u4'' empty_store
       = (Inr (201, AuthJson ''t:u4''
                 \<lparr>pu_id = ''u4'', pu_name = ''Dan'', pu_email = ''dan@x.io'', pu_role = BUYER,
                  pu_avatar = None\<rparr>),
          \<lparr>users = [\<lparr>user_id = ''u4'', user_email = ''dan@x.io'', user_password = ''#pw4'',
                     user_name = ''Dan'', user_role = BUYER, user_avatar = None\<rparr>],
           projects = [], bids = [], files = []\<rparr>)"
  by (simp add: register_def env0_def asciiUpper_def asciiUpperChar_def roleOf_def
       user_findUnique_email_def user_create_def generateToken_def empty_store_def)



section \<open>Selecting a bid\<close>

lemma accepted_after:
  "filter (\<lambda>c. bid_projectId c = pid \<and> bid_status c = ACCEPTED)
     (map (\<lambda>c. if bid_projectId c = pid \<and> bid_id c \<noteq> i then c\<lparr>bid_status := REJECTED\<rparr> else c)
        (map (\<lambda>c. if bid_id c = i then c\<lparr>bid_status := ACCEPTED\<rparr> else c) xs))
   = map (\<lambda>c. c\<lparr>bid_status := ACCEPTED\<rparr>)
       (filter (\<lambda>c. bid_id c = i \<and> bid_projectId c = pid) xs)"
  by (induction xs) auto

lemma rejected_after:
  assumes "c \<in> set (map (\<lambda>c. if bid_projectId c = pid \<and> bid_id c \<noteq> i
                                  then c\<lparr>bid_status := REJECTED\<rparr> else c)
                        (map (\<lambda>c. if bid_id c = i then c\<lparr>bid_status := ACCEPTED\<rparr> else c) (xs :: bid list)))"
    and "bid_projectId c = pid" and "bid_id c \<noteq> i"
  shows "bid_status c = REJECTED"
proof -
  define acc :: "bid \<Rightarrow> bid" where "acc = (\<lambda>c. if bid_id c = i then c\<lparr>bid_status := ACCEPTED\<rparr> else c)"
  define rej :: "bid \<Rightarrow> bid" where "rej = (\<lambda>c. if bid_projectId c = pid \<and> bid_id c \<noteq> i
                                  then c\<lparr>bid_status := REJECTED\<rparr> else c)"
  have "c \<in> set (map rej (map acc xs))"
    using assms(1) unfolding acc_def rej_def .
  then obtain c0 where c0: "c = rej (acc c0)"
    by (auto simp: image_iff)
  have a: "bid_id (acc c0) = bid_id c0" "bid_projectId (acc c0) = bid_projectId c0"
    by (simp_all add: acc_def)
  have r: "bid_id (rej (acc c0)) = bid_id c0" "bid_projectId (rej (acc c0)) = bid_projectId c0"
    using a by (simp_all add: rej_def)
  from assms(2,3) c0 r a have "bid_projectId (acc c0) = pid \<and> bid_id (acc c0) \<noteq> i"
    by simp
  then have "bid_status (rej (acc c0)) = REJECTED"
    by (simp add: rej_def)
  with c0 show ?thesis by simp
qed

lemma selectBid_success_shape:
  assumes "selectBid u projectId bidId sellerId s = (Inr r, s')"
  shows "truthy bidId \<and> truthy sellerId \<and>
    (\<exists>p b. project_findUnique s projectId = Some p \<and> project_buyerId p = user_id u
       \<and> project_status p = PENDING
       \<and> bid_findFirst s (\<lambda>b. bid_id b = the bidId \<and> bid_projectId b = projectId \<and>
                                bid_sellerId b = the sellerId) = Some b
       \<and> r = (200, ProjectJson (p\<lparr>project_status := IN_PROGRESS, project_sellerId := sellerId\<rparr>))
       \<and> s' = s\<lparr>projects := map (\<lambda>q. if project_id q = projectId
                                      then q\<lparr>project_status := IN_PROGRESS, project_sellerId := sellerId\<rparr>
                                      else q) (projects s),
                 bids := map (\<lambda>c. if bid_projectId c = projectId \<and> bid_id c \<noteq> the bidId
                                   then c\<lparr>bid_status := REJECTED\<rparr> else c)
                          (map (\<lambda>c. if bid_id c = the bidId then c\<lparr>bid_status := ACCEPTED\<rparr> else c)
                             (bids s))\<rparr>)"
  using assms
  by (auto simp: selectBid_def project_update_def bid_update_def bid_updateMany_def Let_def
           bid_findUnique_def project_findUnique_def
           split: if_splits option.splits prod.splits)

text \<open>
  C1. A selectBid that succeeds ran on a PENDING project and on a bid b whose id,
  project and seller are those of the request; afterwards the project is IN_PROGRESS
  with b's seller as its sellerId, b is ACCEPTED, every other bid of the project is
  REJECTED, and the ACCEPTED bids of the project are b alone. Bid ids are the primary
  key of the Bid table, hence distinct.
\<close>

theorem selectBid_accepts_exactly_one:
  assumes d: "distinct (map bid_id (bids s))"
      and ok: "selectBid u projectId bidId sellerId s = (Inr r, s')"
  shows "\<exists>p b. project_findUnique s projectId = Some p \<and> project_status p = PENDING
      \<and> b \<in> set (bids s) \<and> bidId = Some (bid_id b) \<and> bid_projectId b = projectId
      \<and> sellerId = Some (bid_sellerId b)
      \<and> project_findUnique s' projectId
          = Some (p\<lparr>project_status := IN_PROGRESS, project_sellerId := Some (bid_sellerId b)\<rparr>)
      \<and> bid_findUnique s' (bid_id b) = Some (b\<lparr>bid_status := ACCEPTED\<rparr>)
      \<and> (\<forall>c \<in> set (bids s'). bid_projectId c = projectId \<and> bid_id c \<noteq> bid_id b
            \<longrightarrow> bid_status c = REJECTED)
      \<and> filter (\<lambda>c. bid_projectId c = projectId \<and> bid_status c = ACCEPTED) (bids s')
          = [b\<lparr>bid_status := ACCEPTED\<rparr>]"
proof -
  from selectBid_success_shape [OF ok] obtain p b where
    t: "truthy bidId" "truthy sellerId" and
    p: "project_findUnique s projectId = Some p" "project_status p = PENDING" and
    b: "bid_findFirst s (\<lambda>b. bid_id b = the bidId \<and> bid_projectId b = projectId \<and>
                                bid_sellerId b = the sellerId) = Some b" and
    s': "s' = s\<lparr>projects := map (\<lambda>q. if project_id q = projectId
                                      then q\<lparr>project_status := IN_PROGRESS, project_sellerId := sellerId\<rparr>
                                      else q) (projects s),
                 bids := map (\<lambda>c. if bid_projectId c = projectId \<and> bid_id c \<noteq> the bidId
                                   then c\<lparr>bid_status := REJECTED\<rparr> else c)
                          (map (\<lambda>c. if bid_id c = the bidId then c\<lparr>bid_status := ACCEPTED\<rparr> else c)
                             (bids s))\<rparr>"
    by blast
  from b have bm: "b \<in> set (bids s)" and bi: "the bidId = bid_id b"
    and bp: "bid_projectId b = projectId" and bs: "the sellerId = bid_sellerId b"
    by (auto simp: bid_findFirst_def dest: find_SomeD)
  from t bi bs have ids: "bidId = Some (bid_id b)" "sellerId = Some (bid_sellerId b)"
    by (auto simp: truthy_def split: option.splits)
  have ps': "projects s' = map (\<lambda>q. if project_id q = projectId
                 then q\<lparr>project_status := IN_PROGRESS, project_sellerId := Some (bid_sellerId b)\<rparr>
                 else q) (projects s)"
    by (simp add: s' ids)
  have bs': "bids s' = map (\<lambda>c. if bid_projectId c = projectId \<and> bid_id c \<noteq> bid_id b
                                   then c\<lparr>bid_status := REJECTED\<rparr> else c)
                          (map (\<lambda>c. if bid_id c = bid_id b then c\<lparr>bid_status := ACCEPTED\<rparr> else c)
                             (bids s))"
    by (simp add: s' bi)
  have pid: "project_id p = projectId"
    using p(1) by (auto simp: project_findUnique_def dest: find_SomeD)
  have proj: "project_findUnique s' projectId
          = Some (p\<lparr>project_status := IN_PROGRESS, project_sellerId := Some (bid_sellerId b)\<rparr>)"
    using p(1) pid by (simp add: ps' project_findUnique_def find_map_key)
  have fb: "find (\<lambda>c. bid_id c = bid_id b) (bids s) = Some b"
    using d bm by (rule find_key_distinct)
  have acc: "bid_findUnique s' (bid_id b) = Some (b\<lparr>bid_status := ACCEPTED\<rparr>)"
    using fb by (simp add: bs' bid_findUnique_def find_map_key)
  have rej: "\<forall>c \<in> set (bids s'). bid_projectId c = projectId \<and> bid_id c \<noteq> bid_id b
            \<longrightarrow> bid_status c = REJECTED"
    unfolding bs' using rejected_after by blast
  have "filter (\<lambda>c. bid_projectId c = projectId \<and> bid_status c = ACCEPTED) (bids s')
      = map (\<lambda>c. c\<lparr>bid_status := ACCEPTED\<rparr>)
          (filter (\<lambda>c. bid_id c = bid_id b \<and> bid_projectId c = projectId) (bids s))"
    unfolding bs' by (rule accepted_after)
  also have "\<dots> = [b\<lparr>bid_status := ACCEPTED\<rparr>]"
    using filter_key_distinct [OF d bm, of "\<lambda>c. bid_projectId c = projectId"] bp by simp
  finally have one: "filter (\<lambda>c. bid_projectId c = projectId \<and> bid_status c = ACCEPTED) (bids s')
          = [b\<lparr>bid_status := ACCEPTED\<rparr>]" .
  from p bm ids bp proj acc rej one show ?thesis by blast
qed

theorem selectBid_accepts_exactly_one_witness:
  "distinct (map bid_id (bids storeOpen))
   \<and> selectBid buyerB ''p1'' (Some ''b1'') (Some ''u2'') storeOpen
       = (Inr (200, ProjectJson (projectP\<lparr>project_status := IN_PROGRESS,
                                          project_sellerId := Some ''u2''\<rparr>)), storeAwarded)
   \<and> filter (\<lambda>c. bid_projectId c = ''p1'' \<and> bid_status c = ACCEPTED) (bids storeAwarded)
       = [bidS1\<lparr>bid_status := ACCEPTED\<rparr>]
   \<and> bid_findUnique storeAwarded ''b2'' = Some (bidS2\<lparr>bid_status := REJECTED\<rparr>)"
proof -
  have d: "distinct (map bid_id (bids storeOpen))"
    by (simp add: fixtures)
  have ok: "selectBid buyerB ''p1'' (Some ''b1'') (Some ''u2'') storeOpen
       = (Inr (200, ProjectJson (projectP\<lparr>project_status := IN_PROGRESS,
                                          project_sellerId := Some ''u2''\<rparr>)), storeAwarded)"
    by (simp add: selectBid_def truthy_def project_findUnique_def bid_findFirst_def
          project_update_def bid_update_def bid_findUnique_def bid_updateMany_def fixtures)
  from selectBid_accepts_exactly_one [OF d ok] obtain b where
    b: "b \<in> set (bids storeOpen)" "Some ''b1'' = Some (bid_id b)" and
    f: "filter (\<lambda>c. bid_projectId c = ''p1'' \<and> bid_status c = ACCEPTED) (bids storeAwarded)
          = [b\<lparr>bid_status := ACCEPTED\<rparr>]"
    by blast
  from b have "b = bidS1"
    by (auto simp: fixtures)
  with f have one: "filter (\<lambda>c. bid_projectId c = ''p1'' \<and> bid_status c = ACCEPTED) (bids storeAwarded)
       = [bidS1\<lparr>bid_status := ACCEPTED\<rparr>]"
    by simp
  have r: "bid_findUnique storeAwarded ''b2'' = Some (bidS2\<lparr>bid_status := REJECTED\<rparr>)"
    by (simp add: bid_findUnique_def fixtures)
  from d ok one r show ?thesis by simp
qed

section \<open>Updating a project\<close>

lemma applyProjectUpdate_keeps:
  "project_id (applyProjectUpdate d q) = project_id q"
  "project_status (applyProjectUpdate d q) = project_status q"
  "project_buyerId (applyProjectUpdate d q) = project_buyerId q"
  "project_sellerId (applyProjectUpdate d q) = project_sellerId q"
  by (simp_all add: applyProjectUpdate_def)

lemma updateProject_pending:
  assumes "project_findUnique s projectId = Some p" and "project_buyerId p = user_id u"
    and "project_status p = PENDING"
  shows "updateProject e u projectId title description budget deadline s =
     (if truthy deadline \<and> parseDate e (the deadline) = None then (Inl DriverError, s)
      else (Inr (200, ProjectJson (applyProjectUpdate
                \<lparr>ud_title = (if truthy title then title else None),
                 ud_description = (if truthy description then description else None),
                 ud_budgetMin = (case budget of None \<Rightarrow> None | Some b \<Rightarrow> budget_min b),
                 ud_budgetMax = (case budget of None \<Rightarrow> None | Some b \<Rightarrow> budget_max b),
                 ud_deadline = (if truthy deadline then parseDate e (the deadline) else None)\<rparr> p)),
            s\<lparr>projects := map (\<lambda>q. if project_id q = projectId then applyProjectUpdate
                \<lparr>ud_title = (if truthy title then title else None),
                 ud_description = (if truthy description then description else None),
                 ud_budgetMin = (case budget of None \<Rightarrow> None | Some b \<Rightarrow> budget_min b),
                 ud_budgetMax = (case budget of None \<Rightarrow> None | Some b \<Rightarrow> budget_max b),
                 ud_deadline = (if truthy deadline then parseDate e (the deadline) else None)\<rparr> q
               else q) (projects s)\<rparr>))"
  using assms by (simp add: updateProject_def project_update_def Let_def)

lemma exec_UpdateProject_owner:
  assumes "authenticate e h s = Inr u" and "project_findUnique s projectId = Some p"
    and "project_buyerId p = user_id u"
  shows "exec e (UpdateProject h projectId title description budget deadline) s
         = updateProject e u projectId title description budget deadline s"
  using assms by (simp add: withUser_def guarded_def requireProjectOwner_def)

text \<open>
  C9. An update of a project by its owning buyer: when the project has left PENDING
  the request fails with PRECONDITION (400) and the store is unchanged; when it is
  PENDING, every field the request does not provide (title, description, budget,
  deadline) keeps its value, the status, buyerId, sellerId and id are unchanged whatever
  is provided, a successful update sets the provided title, description and deadline,
  and no other project, user, bid or file changes.
\<close>

theorem updateProject_frame:
  assumes a: "authenticate e h s = Inr u"
    and p: "project_findUnique s projectId = Some p"
    and ow: "project_buyerId p = user_id u"
    and run: "exec e (UpdateProject h projectId title description budget deadline) s = (r, s')"
  shows "(project_status p \<noteq> PENDING \<longrightarrow>
            r = Inl (AppError 400 ''Cannot update a project that is already in progress or completed'')
            \<and> s' = s)
       \<and> (project_status p = PENDING \<longrightarrow>
            (\<exists>p'. project_findUnique s' projectId = Some p'
               \<and> (\<not> truthy title \<longrightarrow> project_title p' = project_title p)
               \<and> (\<not> truthy description \<longrightarrow> project_description p' = project_description p)
               \<and> (budget = None \<longrightarrow> project_budgetMin p' = project_budgetMin p
                                    \<and> project_budgetMax p' = project_budgetMax p)
               \<and> (\<not> truthy deadline \<longrightarrow> project_deadline p' = project_deadline p)
               \<and> project_status p' = project_status p
               \<and> project_buyerId p' = project_buyerId p
               \<and> project_sellerId p' = project_sellerId p
               \<and> project_id p' = project_id p
               \<and> (\<forall>v. r = Inr v \<longrightarrow> v = (200, ProjectJson p')
                     \<and> (truthy title \<longrightarrow> project_title p' = the title)
                     \<and> (truthy description \<longrightarrow> project_description p' = the description)
                     \<and> (truthy deadline \<longrightarrow> parseDate e (the deadline) = Some (project_deadline p'))))
            \<and> (\<forall>j. j \<noteq> projectId \<longrightarrow> project_findUnique s' j = project_findUnique s j)
            \<and> users s' = users s \<and> bids s' = bids s \<and> files s' = files s)"
proof (intro conjI impI)
  assume np: "project_status p \<noteq> PENDING"
  have "updateProject e u projectId title description budget deadline s
        = (Inl (AppError 400 ''Cannot update a project that is already in progress or completed''), s)"
    using p ow np by (simp add: updateProject_def)
  with run exec_UpdateProject_owner [OF a p ow]
  show "r = Inl (AppError 400 ''Cannot update a project that is already in progress or completed'')"
    and "s' = s"
    by simp_all
next
  assume pe: "project_status p = PENDING"
  define d where "d = \<lparr>ud_title = (if truthy title then title else None),
                 ud_description = (if truthy description then description else None),
                 ud_budgetMin = (case budget of None \<Rightarrow> None | Some b \<Rightarrow> budget_min b),
                 ud_budgetMax = (case budget of None \<Rightarrow> None | Some b \<Rightarrow> budget_max b),
                 ud_deadline = (if truthy deadline then parseDate e (the deadline) else None)\<rparr>"
  define g where "g = (\<lambda>q. if project_id q = projectId then applyProjectUpdate d q else q)"
  have gid: "\<And>c. project_id (g c) = project_id c"
    by (simp add: g_def applyProjectUpdate_keeps)
  have pid: "project_id p = projectId"
    using p by (auto simp: project_findUnique_def dest: find_SomeD)
  from run have "(r, s') = exec e (UpdateProject h projectId title description budget deadline) s"
    by (rule sym)
  also have "\<dots> = updateProject e u projectId title description budget deadline s"
    by (rule exec_UpdateProject_owner [OF a p ow])
  also have "\<dots> = (if truthy deadline \<and> parseDate e (the deadline) = None then (Inl DriverError, s)
      else (Inr (200, ProjectJson (applyProjectUpdate d p)), s\<lparr>projects := map g (projects s)\<rparr>))"
    unfolding d_def g_def by (rule updateProject_pending [OF p ow pe])
  finally have eq: "(r, s') = (if truthy deadline \<and> parseDate e (the deadline) = None
      then (Inl DriverError, s)
      else (Inr (200, ProjectJson (applyProjectUpdate d p)), s\<lparr>projects := map g (projects s)\<rparr>))" .
  show "\<exists>p'. project_findUnique s' projectId = Some p'
               \<and> (\<not> truthy title \<longrightarrow> project_title p' = project_title p)
               \<and> (\<not> truthy description \<longrightarrow> project_description p' = project_description p)
               \<and> (budget = None \<longrightarrow> project_budgetMin p' = project_budgetMin p
                                    \<and> project_budgetMax p' = project_budgetMax p)
               \<and> (\<not> truthy deadline \<longrightarrow> project_deadline p' = project_deadline p)
               \<and> project_status p' = project_status p
               \<and> project_buyerId p' = project_buyerId p
               \<and> project_sellerId p' = project_sellerId p
               \<and> project_id p' = project_id p
               \<and> (\<forall>v. r = Inr v \<longrightarrow> v = (200, ProjectJson p')
                     \<and> (truthy title \<longrightarrow> project_title p' = the title)
                     \<and> (truthy description \<longrightarrow> project_description p' = the description)
                     \<and> (truthy deadline \<longrightarrow> parseDate e (the deadline) = Some (project_deadline p')))"
  proof (cases "truthy deadline \<and> parseDate e (the deadline) = None")
    case True
    with eq have "r = Inl DriverError" "s' = s" by simp_all
    with p show ?thesis by simp
  next
    case False
    with eq have r: "r = Inr (200, ProjectJson (applyProjectUpdate d p))"
      and s': "s' = s\<lparr>projects := map g (projects s)\<rparr>" by simp_all
    have f: "project_findUnique s' projectId = Some (applyProjectUpdate d p)"
      using p pid gid by (simp add: s' project_findUnique_def find_map_key) (simp add: g_def)
    have props: "(\<not> truthy title \<longrightarrow> project_title (applyProjectUpdate d p) = project_title p)"
      "(\<not> truthy description \<longrightarrow> project_description (applyProjectUpdate d p) = project_description p)"
      "(budget = None \<longrightarrow> project_budgetMin (applyProjectUpdate d p) = project_budgetMin p
                                    \<and> project_budgetMax (applyProjectUpdate d p) = project_budgetMax p)"
      "(\<not> truthy deadline \<longrightarrow> project_deadline (applyProjectUpdate d p) = project_deadline p)"
      "(truthy title \<longrightarrow> project_title (applyProjectUpdate d p) = the title)"
      "(truthy description \<longrightarrow> project_description (applyProjectUpdate d p) = the description)"
      "(truthy deadline \<longrightarrow> parseDate e (the deadline) = Some (project_deadline (applyProjectUpdate d p)))"
      using False by (auto simp: applyProjectUpdate_def d_def truthy_def split: option.splits)
    from f props r show ?thesis
      by (simp add: applyProjectUpdate_keeps)
  qed
  show "\<forall>j. j \<noteq> projectId \<longrightarrow> project_findUnique s' j = project_findUnique s j"
  proof (intro allI impI)
    fix j :: ident assume "j \<noteq> projectId"
    then have "find (\<lambda>x. project_id x = j) (map g (projects s)) = find (\<lambda>x. project_id x = j) (projects s)"
      unfolding g_def by (intro find_map_other) (simp_all add: applyProjectUpdate_keeps)
    with eq show "project_findUnique s' j = project_findUnique s j"
      by (auto simp: project_findUnique_def split: if_splits)
  qed
  from eq show "users s' = users s" by (auto split: if_splits)
  from eq show "bids s' = bids s" by (auto split: if_splits)
  from eq show "files s' = files s" by (auto split: if_splits)
qed

theorem updateProject_frame_witness:
  "authenticate env0 (Some ''Bearer t:u1'') storeOpen = Inr buyerB
   \<and> project_findUnique storeOpen ''p1'' = Some projectP
   \<and> project_buyerId projectP = user_id buyerB
   \<and> project_status projectP = PENDING
   \<and> exec env0 (UpdateProject (Some ''Bearer t:u1'') ''p1'' (Some ''Logo v2'') None None None) storeOpen
       = (Inr (200, ProjectJson (projectP\<lparr>project_title := ''Logo v2''\<rparr>)),
          storeOpen\<lparr>projects := [projectP\<lparr>project_title := ''Logo v2''\<rparr>]\<rparr>)
   \<and> (\<exists>p'. project_findUnique (storeOpen\<lparr>projects := [projectP\<lparr>project_title := ''Logo v2''\<rparr>]\<rparr>) ''p1''
              = Some p'
         \<and> project_title p' = ''Logo v2''
         \<and> project_description p' = project_description projectP
         \<and> project_budgetMin p' = project_budgetMin projectP
         \<and> project_budgetMax p' = project_budgetMax projectP
         \<and> project_deadline p' = project_deadline projectP
         \<and> project_status p' = PENDING
         \<and> project_buyerId p' = ''u1''
         \<and> project_sellerId p' = None)"
proof -
  have a: "authenticate env0 (Some ''Bearer t:u1'') storeOpen = Inr buyerB"
    by (simp add: authenticate_def truthy_def user_findUnique_def fixtures)
  have p: "project_findUnique storeOpen ''p1'' = Some projectP"
    by (simp add: project_findUnique_def fixtures)
  have ow: "project_buyerId projectP = user_id buyerB"
    by (simp add: fixtures)
  have pe: "project_status projectP = PENDING"
    by (simp add: fixtures)
  have run: "exec env0 (UpdateProject (Some ''Bearer t:u1'') ''p1'' (Some ''Logo v2'') None None None) storeOpen
       = (Inr (200, ProjectJson (projectP\<lparr>project_title := ''Logo v2''\<rparr>)),
          storeOpen\<lparr>projects := [projectP\<lparr>project_title := ''Logo v2''\<rparr>]\<rparr>)"
    by (simp add: withUser_def a guarded_def requireProjectOwner_def p ow updateProject_def pe
          truthy_def project_update_def applyProjectUpdate_def)
       (simp add: fixtures applyProjectUpdate_def)
  have t: "truthy (Some ''Logo v2'')" "\<not> truthy None"
    by (simp_all add: truthy_def)
  from updateProject_frame [OF a p ow run] pe t
  have "\<exists>p'. project_findUnique (storeOpen\<lparr>projects := [projectP\<lparr>project_title := ''Logo v2''\<rparr>]\<rparr>) ''p1''
              = Some p'
         \<and> project_title p' = ''Logo v2''
         \<and> project_description p' = project_description projectP
         \<and> project_budgetMin p' = project_budgetMin projectP
         \<and> project_budgetMax p' = project_budgetMax projectP
         \<and> project_deadline p' = project_deadline projectP
         \<and> project_status p' = PENDING
         \<and> project_buyerId p' = ''u1''
         \<and> project_sellerId p' = None"
    by (simp add: fixtures) 
  with a p ow pe run show ?thesis by simp
qed

section \<open>Updating and deleting a bid\<close>

lemma exec_UpdateBid_seller:
  "authenticate e h s = Inr u \<Longrightarrow> user_role u = SELLER
    \<Longrightarrow> exec e (UpdateBid h bidId amount deliveryTime message) s
        = updateBid u bidId amount deliveryTime message s"
  by (simp add: withUser_def guarded_def requireSeller_def)

lemma exec_DeleteBid_seller:
  "authenticate e h s = Inr u \<Longrightarrow> user_role u = SELLER
    \<Longrightarrow> exec e (DeleteBid h bidId) s = deleteBid u bidId s"
  by (simp add: withUser_def guarded_def requireSeller_def)

text \<open>
  C7. For a bid and its owning seller: when the bid or its project has left PENDING,
  the update and the delete of the bid both fail with PRECONDITION (400) and return the
  store unchanged, so the bid is as it was; when both are PENDING both requests
  succeed. Hence they succeed only when the bid and its project are PENDING.
\<close>

theorem bid_update_delete_precondition:
  assumes a: "authenticate e h s = Inr u" and sr: "user_role u = SELLER"
    and b: "bid_findUnique s bidId = Some b" and ow: "bid_sellerId b = user_id u"
    and p: "project_findUnique s (bid_projectId b) = Some p"
  shows "(bid_status b \<noteq> BID_PENDING \<or> project_status p \<noteq> PENDING \<longrightarrow>
            exec e (UpdateBid h bidId amount deliveryTime message) s
              = (Inl (AppError 400 ''Cannot update a bid that has already been accepted or rejected''), s)
          \<and> exec e (DeleteBid h bidId) s
              = (Inl (AppError 400 ''Cannot delete a bid that has already been accepted or rejected''), s))
       \<and> (bid_status b = BID_PENDING \<and> project_status p = PENDING \<longrightarrow>
            (\<exists>b' s'. exec e (UpdateBid h bidId amount deliveryTime message) s = (Inr (200, BidJson b'), s')
                     \<and> bid_findUnique s' bidId = Some b')
          \<and> (\<exists>s'. exec e (DeleteBid h bidId) s = (Inr (200, MessageJson ''Bid deleted successfully''), s')
                     \<and> bid_findUnique s' bidId = None))"
proof (intro conjI impI)
  assume n: "bid_status b \<noteq> BID_PENDING \<or> project_status p \<noteq> PENDING"
  have "updateBid u bidId amount deliveryTime message s
          = (Inl (AppError 400 ''Cannot update a bid that has already been accepted or rejected''), s)"
    using b ow p n by (auto simp: updateBid_def)
  then show "exec e (UpdateBid h bidId amount deliveryTime message) s
              = (Inl (AppError 400 ''Cannot update a bid that has already been accepted or rejected''), s)"
    by (simp only: exec_UpdateBid_seller [OF a sr])
  have "deleteBid u bidId s
          = (Inl (AppError 400 ''Cannot delete a bid that has already been accepted or rejected''), s)"
    using b ow p n by (auto simp: deleteBid_def)
  then show "exec e (DeleteBid h bidId) s
              = (Inl (AppError 400 ''Cannot delete a bid that has already been accepted or rejected''), s)"
    by (simp only: exec_DeleteBid_seller [OF a sr])
next
  assume y: "bid_status b = BID_PENDING \<and> project_status p = PENDING"
  define d where "d = \<lparr>ud_amount = (if truthyNum amount then amount else None),
                        ud_deliveryTime = (if truthyNum deliveryTime then deliveryTime else None),
                        ud_message = (if truthy message then message else None)\<rparr>"
  define g :: "bid \<Rightarrow> bid" where "g = (\<lambda>c. if bid_id c = bidId then applyBidUpdate d c else c)"
  have gid: "\<And>c. bid_id (g c) = bid_id c"
    by (simp add: g_def applyBidUpdate_def)
  have bi: "bid_id b = bidId"
    using b by (auto simp: bid_findUnique_def dest: find_SomeD)
  have "updateBid u bidId amount deliveryTime message s
          = (Inr (200, BidJson (applyBidUpdate d b)), s\<lparr>bids := map g (bids s)\<rparr>)"
    unfolding d_def g_def using b ow p y by (simp add: updateBid_def bid_update_def Let_def)
  moreover have "bid_findUnique (s\<lparr>bids := map g (bids s)\<rparr>) bidId = Some (applyBidUpdate d b)"
    using b bi gid by (simp add: bid_findUnique_def find_map_key) (simp add: g_def)
  ultimately show "\<exists>b' s'. exec e (UpdateBid h bidId amount deliveryTime message) s = (Inr (200, BidJson b'), s')
                     \<and> bid_findUnique s' bidId = Some b'"
    by (simp only: exec_UpdateBid_seller [OF a sr]) blast
  have "deleteBid u bidId s
          = (Inr (200, MessageJson ''Bid deleted successfully''),
             s\<lparr>bids := filter (\<lambda>c. bid_id c \<noteq> bidId) (bids s)\<rparr>)"
    using b ow p y by (simp add: deleteBid_def bid_delete_def)
  moreover have "bid_findUnique (s\<lparr>bids := filter (\<lambda>c. bid_id c \<noteq> bidId) (bids s)\<rparr>) bidId = None"
    by (simp add: bid_findUnique_def find_filter_key)
  ultimately show "\<exists>s'. exec e (DeleteBid h bidId) s = (Inr (200, MessageJson ''Bid deleted successfully''), s')
                     \<and> bid_findUnique s' bidId = None"
    by (simp only: exec_DeleteBid_seller [OF a sr]) blast
qed

theorem bid_update_delete_precondition_witness:
  "authenticate env0 (Some ''Bearer t:u2'') storeAwarded = Inr sellerS1
   \<and> user_role sellerS1 = SELLER
   \<and> bid_findUnique storeAwarded ''b1'' = Some (bidS1\<lparr>bid_status := ACCEPTED\<rparr>)
   \<and> project_findUnique storeAwarded ''p1''
        = Some (projectP\<lparr>project_status := IN_PROGRESS, project_sellerId := Some ''u2''\<rparr>)
   \<and> exec env0 (UpdateBid (Some ''Bearer t:u2'') ''b1'' (Some 120) None None) storeAwarded
        = (Inl (AppError 400 ''Cannot update a bid that has already been accepted or rejected''), storeAwarded)
   \<and> exec env0 (DeleteBid (Some ''Bearer t:u2'') ''b1'') storeAwarded
        = (Inl (AppError 400 ''Cannot delete a bid that has already been accepted or rejected''), storeAwarded)"
proof -
  have a: "authenticate env0 (Some ''Bearer t:u2'') storeAwarded = Inr sellerS1"
    by (simp add: authenticate_def truthy_def user_findUnique_def fixtures)
  have sr: "user_role sellerS1 = SELLER"
    by (simp add: fixtures)
  have b: "bid_findUnique storeAwarded ''b1'' = Some (bidS1\<lparr>bid_status := ACCEPTED\<rparr>)"
    by (simp add: bid_findUnique_def fixtures)
  have ow: "bid_sellerId (bidS1\<lparr>bid_status := ACCEPTED\<rparr>) = user_id sellerS1"
    by (simp add: fixtures)
  have p: "project_findUnique storeAwarded (bid_projectId (bidS1\<lparr>bid_status := ACCEPTED\<rparr>))
        = Some (projectP\<lparr>project_status := IN_PROGRESS, project_sellerId := Some ''u2''\<rparr>)"
    by (simp add: project_findUnique_def fixtures)
  have n: "bid_status (bidS1\<lparr>bid_status := ACCEPTED\<rparr>) \<noteq> BID_PENDING"
    by simp
  have p': "project_findUnique storeAwarded ''p1''
        = Some (projectP\<lparr>project_status := IN_PROGRESS, project_sellerId := Some ''u2''\<rparr>)"
    by (simp add: project_findUnique_def fixtures)
  from bid_update_delete_precondition [OF a sr b ow p, of "Some 120" None None] n a sr b p'
  show ?thesis by simp
qed

section \<open>Listing the bids of a project\<close>

lemma exec_GetProjectBids:
  "authenticate e h s = Inr u \<Longrightarrow> exec e (GetProjectBids h projectId) s = getProjectBids u projectId s"
  by (simp add: withUser_def)

lemma orderByCreatedAtDesc_mset: "mset (orderByCreatedAtDesc xs) = mset xs"
  by (simp add: orderByCreatedAtDesc_def)

lemma orderByCreatedAtDesc_set: "set (orderByCreatedAtDesc xs) = set xs"
  by (simp add: orderByCreatedAtDesc_def)

lemma orderByCreatedAtDesc_newest_first:
  "sorted_wrt (\<lambda>a b. bid_createdAt b \<le> bid_createdAt a) (orderByCreatedAtDesc xs)"
proof -
  have "sorted (map (\<lambda>b. - bid_createdAt b) (orderByCreatedAtDesc xs))"
    by (simp add: orderByCreatedAtDesc_def)
  then show ?thesis
    by (simp add: sorted_map)
qed

lemma bid_rows:
  assumes "biddersAreSellers s"
  shows "mset (map fst (map (\<lambda>b. (b, sellerOf s w b))
                 (orderByCreatedAtDesc (bid_findMany s (\<lambda>b. bid_projectId b = projectId)))))
           = mset (filter (\<lambda>b. bid_projectId b = projectId) (bids s))
       \<and> sorted_wrt (\<lambda>a b. bid_createdAt b \<le> bid_createdAt a)
            (map fst (map (\<lambda>b. (b, sellerOf s w b))
                (orderByCreatedAtDesc (bid_findMany s (\<lambda>b. bid_projectId b = projectId)))))
       \<and> (\<forall>(b, v) \<in> set (map (\<lambda>b. (b, sellerOf s w b))
                          (orderByCreatedAtDesc (bid_findMany s (\<lambda>b. bid_projectId b = projectId)))).
            \<exists>x. user_findUnique s (bid_sellerId b) = Some x
               \<and> v = Some \<lparr>sv_id = user_id x, sv_name = user_name x,
                            sv_email = (if w then Some (user_email x) else None)\<rparr>)"
proof (intro conjI ballI)
  have fst_rows: "map fst (map (\<lambda>b. (b, sellerOf s w b))
                 (orderByCreatedAtDesc (bid_findMany s (\<lambda>b. bid_projectId b = projectId))))
          = orderByCreatedAtDesc (bid_findMany s (\<lambda>b. bid_projectId b = projectId))"
    by (simp add: comp_def)
  show "mset (map fst (map (\<lambda>b. (b, sellerOf s w b))
                 (orderByCreatedAtDesc (bid_findMany s (\<lambda>b. bid_projectId b = projectId)))))
           = mset (filter (\<lambda>b. bid_projectId b = projectId) (bids s))"
    unfolding fst_rows by (simp add: orderByCreatedAtDesc_mset bid_findMany_def)
  show "sorted_wrt (\<lambda>a b. bid_createdAt b \<le> bid_createdAt a)
            (map fst (map (\<lambda>b. (b, sellerOf s w b))
                (orderByCreatedAtDesc (bid_findMany s (\<lambda>b. bid_projectId b = projectId)))))"
    unfolding fst_rows by (rule orderByCreatedAtDesc_newest_first)
next
  fix bv
  assume m: "bv \<in> set (map (\<lambda>b. (b, sellerOf s w b))
                          (orderByCreatedAtDesc (bid_findMany s (\<lambda>b. bid_projectId b = projectId))))"
  obtain b v where bv: "bv = (b, v)" by (cases bv)
  from m bv have bm: "b \<in> set (bids s)" and v: "v = sellerOf s w b"
    by (auto simp: bid_findMany_def orderByCreatedAtDesc_set)
  from assms bm obtain x where x: "user_findUnique s (bid_sellerId b) = Some x"
    by (auto simp: biddersAreSellers_def split: option.splits)
  with v have "v = Some \<lparr>sv_id = user_id x, sv_name = user_name x,
                            sv_email = (if w then Some (user_email x) else None)\<rparr>"
    by (simp add: sellerOf_def)
  with x bv show "case bv of (b, v) \<Rightarrow>
            \<exists>x. user_findUnique s (bid_sellerId b) = Some x
               \<and> v = Some \<lparr>sv_id = user_id x, sv_name = user_name x,
                            sv_email = (if w then Some (user_email x) else None)\<rparr>"
    by simp
qed

text \<open>
  C8. For a project and an authenticated user, in a store where project owners are
  BUYERs and bid owners are stored SELLERs: the owning buyer gets the bids of the
  project, newest first, each with its seller's id, name and email; a seller holding a
  bid on the project gets the same bids, newest first, with id and name and no email; a
  seller who neither owns the project nor holds a bid on it gets FORBIDDEN (403). The
  rows are stated up to the order of bids created at the same time, which the database
  is free to choose.
\<close>

theorem getProjectBids_visibility:
  assumes ob: "ownersAreBuyers s" and bs: "biddersAreSellers s"
    and a: "authenticate e h s = Inr u"
    and p: "project_findUnique s projectId = Some p"
  shows "(user_id u = project_buyerId p \<longrightarrow>
           (\<exists>rows. exec e (GetProjectBids h projectId) s = (Inr (200, BidsJson rows), s)
              \<and> mset (map fst rows) = mset (filter (\<lambda>b. bid_projectId b = projectId) (bids s))
              \<and> sorted_wrt (\<lambda>a b. bid_createdAt b \<le> bid_createdAt a) (map fst rows)
              \<and> (\<forall>(b, v) \<in> set rows.
                    \<exists>x. user_findUnique s (bid_sellerId b) = Some x
                       \<and> v = Some \<lparr>sv_id = user_id x, sv_name = user_name x,
                                    sv_email = Some (user_email x)\<rparr>)))
       \<and> (user_role u = SELLER
            \<and> (\<exists>b \<in> set (bids s). bid_projectId b = projectId \<and> bid_sellerId b = user_id u) \<longrightarrow>
           (\<exists>rows. exec e (GetProjectBids h projectId) s = (Inr (200, BidsJson rows), s)
              \<and> mset (map fst rows) = mset (filter (\<lambda>b. bid_projectId b = projectId) (bids s))
              \<and> sorted_wrt (\<lambda>a b. bid_createdAt b \<le> bid_createdAt a) (map fst rows)
              \<and> (\<forall>(b, v) \<in> set rows.
                    \<exists>x. user_findUnique s (bid_sellerId b) = Some x
                       \<and> v = Some \<lparr>sv_id = user_id x, sv_name = user_name x, sv_email = None\<rparr>)))
       \<and> (user_role u = SELLER \<and> user_id u \<noteq> project_buyerId p
            \<and> \<not> (\<exists>b \<in> set (bids s). bid_projectId b = projectId \<and> bid_sellerId b = user_id u) \<longrightarrow>
           exec e (GetProjectBids h projectId) s
             = (Inl (AppError 403 ''You are not authorized to view these bids''), s))"
proof (intro conjI impI)
  assume o: "user_id u = project_buyerId p"
  have "getProjectBids u projectId s
          = (Inr (200, BidsJson (map (\<lambda>b. (b, sellerOf s True b))
               (orderByCreatedAtDesc (bid_findMany s (\<lambda>b. bid_projectId b = projectId))))), s)"
    using p o by (simp add: getProjectBids_def)
  with bid_rows [OF bs, of True projectId]
  show "\<exists>rows. exec e (GetProjectBids h projectId) s = (Inr (200, BidsJson rows), s)
              \<and> mset (map fst rows) = mset (filter (\<lambda>b. bid_projectId b = projectId) (bids s))
              \<and> sorted_wrt (\<lambda>a b. bid_createdAt b \<le> bid_createdAt a) (map fst rows)
              \<and> (\<forall>(b, v) \<in> set rows.
                    \<exists>x. user_findUnique s (bid_sellerId b) = Some x
                       \<and> v = Some \<lparr>sv_id = user_id x, sv_name = user_name x,
                                    sv_email = Some (user_email x)\<rparr>)"
    by (simp only: exec_GetProjectBids [OF a] if_True) blast
next
  assume c: "user_role u = SELLER
            \<and> (\<exists>b \<in> set (bids s). bid_projectId b = projectId \<and> bid_sellerId b = user_id u)"
  have pm: "p \<in> set (projects s)"
    using p by (auto simp: project_findUnique_def dest: find_SomeD)
  with ob obtain x where x: "user_findUnique s (project_buyerId p) = Some x" "user_role x = BUYER"
    by (auto simp: ownersAreBuyers_def split: option.splits)
  have no: "user_id u \<noteq> project_buyerId p"
  proof
    assume "user_id u = project_buyerId p"
    with x authenticate_user [OF a] have "x = u" by simp
    with x c show False by simp
  qed
  from c obtain b where "b \<in> set (bids s)" "bid_projectId b = projectId \<and> bid_sellerId b = user_id u"
    by blast
  then have "\<exists>y. find (\<lambda>b. bid_projectId b = projectId \<and> bid_sellerId b = user_id u) (bids s) = Some y"
    by (rule find_member)
  then have "getProjectBids u projectId s
          = (Inr (200, BidsJson (map (\<lambda>b. (b, sellerOf s False b))
               (orderByCreatedAtDesc (bid_findMany s (\<lambda>b. bid_projectId b = projectId))))), s)"
    using p no c by (auto simp: getProjectBids_def bid_findFirst_def)
  with bid_rows [OF bs, of False projectId]
  show "\<exists>rows. exec e (GetProjectBids h projectId) s = (Inr (200, BidsJson rows), s)
              \<and> mset (map fst rows) = mset (filter (\<lambda>b. bid_projectId b = projectId) (bids s))
              \<and> sorted_wrt (\<lambda>a b. bid_createdAt b \<le> bid_createdAt a) (map fst rows)
              \<and> (\<forall>(b, v) \<in> set rows.
                    \<exists>x. user_findUnique s (bid_sellerId b) = Some x
                       \<and> v = Some \<lparr>sv_id = user_id x, sv_name = user_name x, sv_email = None\<rparr>)"
    by (simp only: exec_GetProjectBids [OF a] if_False) blast
next
  assume c: "user_role u = SELLER \<and> user_id u \<noteq> project_buyerId p
            \<and> \<not> (\<exists>b \<in> set (bids s). bid_projectId b = projectId \<and> bid_sellerId b = user_id u)"
  then have "find (\<lambda>b. bid_projectId b = projectId \<and> bid_sellerId b = user_id u) (bids s) = None"
    by (auto simp: find_None_iff)
  then have "getProjectBids u projectId s
          = (Inl (AppError 403 ''You are not authorized to view these bids''), s)"
    using p c by (auto simp: getProjectBids_def bid_findFirst_def)
  then show "exec e (GetProjectBids h projectId) s
             = (Inl (AppError 403 ''You are not authorized to view these bids''), s)"
    by (simp only: exec_GetProjectBids [OF a])
qed

theorem getProjectBids_visibility_witness:
  "ownersAreBuyers storeOpen \<and> biddersAreSellers storeOpen
   \<and> project_findUnique storeOpen ''p1'' = Some projectP
   \<and> authenticate env0 (Some ''Bearer t:u1'') storeOpen = Inr buyerB
   \<and> exec env0 (GetProjectBids (Some ''Bearer t:u1'') ''p1'') storeOpen
       = (Inr (200, BidsJson
            [(bidS2, Some \<lparr>sv_id = ''u3'', sv_name = ''Cat'', sv_email = Some ''cat@x.io''\<rparr>),
             (bidS1, Some \<lparr>sv_id = ''u2'', sv_name = ''Bob'', sv_email = Some ''bob@x.io''\<rparr>)]),
          storeOpen)
   \<and> authenticate env0 (Some ''Bearer t:u2'') storeOpen = Inr sellerS1
   \<and> exec env0 (GetProjectBids (Some ''Bearer t:u2'') ''p1'') storeOpen
       = (Inr (200, BidsJson
            [(bidS2, Some \<lparr>sv_id = ''u3'', sv_name = ''Cat'', sv_email = None\<rparr>),
             (bidS1, Some \<lparr>sv_id = ''u2'', sv_name = ''Bob'', sv_email = None\<rparr>)]),
          storeOpen)
   \<and> authenticate env0 (Some ''Bearer t:u5'') storeOpen = Inr sellerS3
   \<and> exec env0 (GetProjectBids (Some ''Bearer t:u5'') ''p1'') storeOpen
       = (Inl (AppError 403 ''You are not authorized to view these bids''), storeOpen)"
proof -
  have ob: "ownersAreBuyers storeOpen"
    by (simp add: ownersAreBuyers_def user_findUnique_def fixtures)
  have bs: "biddersAreSellers storeOpen"
    by (simp add: biddersAreSellers_def user_findUnique_def fixtures)
  have p: "project_findUnique storeOpen ''p1'' = Some projectP"
    by (simp add: project_findUnique_def fixtures)
  have a1: "authenticate env0 (Some ''Bearer t:u1'') storeOpen = Inr buyerB"
    by (simp add: authenticate_def truthy_def user_findUnique_def fixtures)
  have a2: "authenticate env0 (Some ''Bearer t:u2'') storeOpen = Inr sellerS1"
    by (simp add: authenticate_def truthy_def user_findUnique_def fixtures)
  have a5: "authenticate env0 (Some ''Bearer t:u5'') storeOpen = Inr sellerS3"
    by (simp add: authenticate_def truthy_def user_findUnique_def fixtures)
  have c5: "user_role sellerS3 = SELLER \<and> user_id sellerS3 \<noteq> project_buyerId projectP
            \<and> \<not> (\<exists>b \<in> set (bids storeOpen). bid_projectId b = ''p1'' \<and> bid_sellerId b = user_id sellerS3)"
    by (simp add: fixtures)
  from getProjectBids_visibility [OF ob bs a5 p] c5
  have r5: "exec env0 (GetProjectBids (Some ''Bearer t:u5'') ''p1'') storeOpen
       = (Inl (AppError 403 ''You are not authorized to view these bids''), storeOpen)"
    by blast
  have ord: "orderByCreatedAtDesc (bid_findMany storeOpen (\<lambda>b. bid_projectId b = ''p1''))
               = [bidS2, bidS1]"
    by (simp add: orderByCreatedAtDesc_def bid_findMany_def storeOpen_def)
       (simp add: bidS1_def bidS2_def)
  have o1: "user_id buyerB = project_buyerId projectP"
    by (simp add: fixtures)
  have o2: "project_buyerId projectP \<noteq> user_id sellerS1" "user_role sellerS1 = SELLER"
    by (simp_all add: fixtures)
  have f2: "bid_findFirst storeOpen (\<lambda>b. bid_projectId b = ''p1'' \<and> bid_sellerId b = user_id sellerS1)
              = Some bidS1"
    by (simp add: bid_findFirst_def fixtures)
  have r1: "exec env0 (GetProjectBids (Some ''Bearer t:u1'') ''p1'') storeOpen
       = (Inr (200, BidsJson
            [(bidS2, Some \<lparr>sv_id = ''u3'', sv_name = ''Cat'', sv_email = Some ''cat@x.io''\<rparr>),
             (bidS1, Some \<lparr>sv_id = ''u2'', sv_name = ''Bob'', sv_email = Some ''bob@x.io''\<rparr>)]),
          storeOpen)"
    by (simp add: withUser_def a1 getProjectBids_def p o1 ord)
       (simp add: sellerOf_def user_findUnique_def fixtures)
  have r2: "exec env0 (GetProjectBids (Some ''Bearer t:u2'') ''p1'') storeOpen
       = (Inr (200, BidsJson
            [(bidS2, Some \<lparr>sv_id = ''u3'', sv_name = ''Cat'', sv_email = None\<rparr>),
             (bidS1, Some \<lparr>sv_id = ''u2'', sv_name = ''Bob'', sv_email = None\<rparr>)]),
          storeOpen)"
    by (simp add: withUser_def a2 getProjectBids_def Let_def p o2 f2 ord)
       (simp add: sellerOf_def user_findUnique_def fixtures)
  from ob bs p a1 r1 a2 r2 a5 r5 show ?thesis by simp
qed

section \<open>Errors and the store\<close>

lemma register_error_unchanged:
  "register e name email password role newId s = (Inl (AppError c m), s') \<Longrightarrow> s' = s"
  unfolding register_def Let_def
  by (simp split: if_splits option.splits)

lemma login_unchanged: "login e email password s = (x, s') \<Longrightarrow> s' = s"
  by (auto simp: login_def split: if_splits option.splits)

lemma createProject_error_unchanged:
  "createProject e u title description budget deadline newId s = (Inl err, s') \<Longrightarrow> s' = s"
  by (auto simp: createProject_def Let_def split: if_splits option.splits)

lemma updateProject_error_unchanged:
  "updateProject e u projectId title description budget deadline s = (Inl err, s') \<Longrightarrow> s' = s"
  by (auto simp: updateProject_def Let_def split: if_splits option.splits prod.splits)

lemma deleteProject_error_unchanged:
  "deleteProject u projectId s = (Inl err, s') \<Longrightarrow> s' = s"
  by (auto simp: deleteProject_def split: if_splits option.splits)

lemma getProjectBids_unchanged: "getProjectBids u projectId s = (x, s') \<Longrightarrow> s' = s"
  by (auto simp: getProjectBids_def Let_def split: if_splits option.splits)

lemma selectBid_error_unchanged:
  "selectBid u projectId bidId sellerId s = (Inl (AppError c m), s') \<Longrightarrow> s' = s"
  by (auto simp: selectBid_def Let_def split: if_splits option.splits prod.splits)

lemma completeProject_error_unchanged:
  "completeProject u projectId s = (Inl err, s') \<Longrightarrow> s' = s"
  by (auto simp: completeProject_def split: if_splits option.splits prod.splits)

lemma createFileRecords_error:
  "createFileRecords projectId fs s = (Some err, s') \<Longrightarrow> err = DriverError"
  by (induction projectId fs s rule: createFileRecords.induct) (auto split: option.splits)

lemma uploadProjectFiles_error_unchanged:
  "uploadProjectFiles u projectId reqFiles s = (Inl (AppError c m), s') \<Longrightarrow> s' = s"
  by (auto simp: uploadProjectFiles_def split: if_splits option.splits prod.splits
           dest: createFileRecords_error)

lemma createBid_error_unchanged:
  "createBid u projectId amount deliveryTime message newId now s = (Inl err, s') \<Longrightarrow> s' = s"
  by (auto simp: createBid_def Let_def split: if_splits option.splits)

lemma updateBid_error_unchanged:
  "updateBid u bidId amount deliveryTime message s = (Inl err, s') \<Longrightarrow> s' = s"
  by (auto simp: updateBid_def Let_def split: if_splits option.splits prod.splits)

lemma deleteBid_error_unchanged:
  "deleteBid u bidId s = (Inl err, s') \<Longrightarrow> s' = s"
  by (auto simp: deleteBid_def split: if_splits option.splits)


lemmas handler_error_unchanged =
  register_error_unchanged login_unchanged createProject_error_unchanged
  updateProject_error_unchanged deleteProject_error_unchanged getProjectBids_unchanged
  selectBid_error_unchanged completeProject_error_unchanged uploadProjectFiles_error_unchanged
  createBid_error_unchanged updateBid_error_unchanged deleteBid_error_unchanged

text \<open>
  C10. Whenever a request (register, login, project create, update, delete, selectBid,
  complete, file upload, bid list, bid create, update, delete) is answered with an error
  thrown by a handler or by the middleware (the errors with a status code: VALIDATION,
  UNAUTHORIZED, FORBIDDEN, NOT_FOUND, CONFLICT, PRECONDITION), the store is exactly as
  before the request: every such check precedes the first write.
\<close>

theorem error_leaves_store:
  assumes "exec e r s = (Inl (AppError c m), s')"
  shows "s' = s"
  using assms
  by (cases r)
     (auto simp: withUser_def guarded_def split: sum.splits option.splits
           dest: handler_error_unchanged)

theorem error_leaves_store_witness:
  "fst (exec env0 (CreateBid (Some ''Bearer t:u2'') (Some ''p1'') (Some 140) (Some 2) (Some ''again'') ''b9'' 30)
          storeOpen)
     = Inl (AppError 400 ''You have already placed a bid on this project'')
   \<and> snd (exec env0 (CreateBid (Some ''Bearer t:u2'') (Some ''p1'') (Some 140) (Some 2) (Some ''again'') ''b9'' 30)
          storeOpen)
     = storeOpen"
proof -
  have a: "authenticate env0 (Some ''Bearer t:u2'') storeOpen = Inr sellerS1"
    by (simp add: authenticate_def truthy_def user_findUnique_def fixtures)
  have f: "fst (exec env0 (CreateBid (Some ''Bearer t:u2'') (Some ''p1'') (Some 140) (Some 2) (Some ''again'') ''b9'' 30)
          storeOpen)
     = Inl (AppError 400 ''You have already placed a bid on this project'')"
    by (simp add: withUser_def a guarded_def requireSeller_def createBid_def truthy_def truthyNum_def)
       (simp add: project_findUnique_def bid_findFirst_def fixtures)
  then have "exec env0 (CreateBid (Some ''Bearer t:u2'') (Some ''p1'') (Some 140) (Some 2) (Some ''again'') ''b9'' 30)
          storeOpen
     = (Inl (AppError 400 ''You have already placed a bid on this project''),
        snd (exec env0 (CreateBid (Some ''Bearer t:u2'') (Some ''p1'') (Some 140) (Some 2) (Some ''again'') ''b9'' 30)
          storeOpen))"
    by (simp add: prod_eq_iff)
  from error_leaves_store [OF this] f show ?thesis by simp
qed

text \<open>
  The restriction to the errors of the handlers matters: an error of a library can
  follow a write. When the token signer throws, register has already stored the user.
\<close>

lemma register_signer_failure:
  "register envNoSecret (Some (JStr ''Dan'')) (Some (JStr ''dan@x.io'')) (Some (JStr ''pw4''))
     (Some (JStr ''SELLER'')) ''u4'' empty_store
     = (Inl DriverError,
        \<lparr>users = [\<lparr>user_id = ''u4'', user_email = ''dan@x.io'', user_password = ''#pw4'',
                   user_name = ''Dan'', user_role = SELLER, user_avatar = None\<rparr>],
         projects = [], bids = [], files = []\<rparr>)"
  by (simp add: register_def envNoSecret_def env0_def asciiUpper_def asciiUpperChar_def
        roleOf_def user_findUnique_email_def user_create_def generateToken_def empty_store_def)

section \<open>The effect of each handler on the store\<close>

lemma register_shape:
  "register e name email password role newId s = (x, s')
    \<Longrightarrow> s' = s \<or> (\<exists>u. s' = s\<lparr>users := users s @ [u]\<rparr>)"
  unfolding register_def Let_def user_create_def
  by (simp split: if_splits option.splits) fastforce+

lemma createProject_shape:
  "createProject e u title description budget deadline newId s = (x, s')
    \<Longrightarrow> s' = s \<or> (\<exists>p. s' = s\<lparr>projects := projects s @ [p]\<rparr> \<and> project_status p = PENDING
                    \<and> project_buyerId p = user_id u \<and> user_role u = BUYER)"
  by (auto simp: createProject_def Let_def project_create_def split: if_splits option.splits)

lemma updateProject_shape:
  "updateProject e u projectId title description budget deadline s = (x, s')
    \<Longrightarrow> s' = s \<or> (\<exists>p d. project_findUnique s projectId = Some p \<and> project_status p = PENDING
                    \<and> s' = s\<lparr>projects := map (\<lambda>q. if project_id q = projectId
                                                  then applyProjectUpdate d q else q) (projects s)\<rparr>)"
  by (auto simp: updateProject_def Let_def project_update_def split: if_splits option.splits)

lemma deleteProject_shape:
  "deleteProject u projectId s = (x, s')
    \<Longrightarrow> s' = s \<or> (\<exists>p. project_findUnique s projectId = Some p \<and> project_status p = PENDING
                    \<and> s' = s\<lparr>projects := filter (\<lambda>q. project_id q \<noteq> projectId) (projects s),
                              files := filter (\<lambda>f. file_projectId f \<noteq> projectId) (files s)\<rparr>)"
  by (auto simp: deleteProject_def project_delete_def split: if_splits option.splits)

lemma selectBid_shape:
  "selectBid u projectId bidId sellerId s = (x, s')
    \<Longrightarrow> s' = s \<or> (\<exists>p. project_findUnique s projectId = Some p \<and> project_status p = PENDING
          \<and> (s' = s\<lparr>projects := map (\<lambda>q. if project_id q = projectId
                                      then q\<lparr>project_status := IN_PROGRESS, project_sellerId := sellerId\<rparr>
                                      else q) (projects s)\<rparr>
             \<or> s' = s\<lparr>projects := map (\<lambda>q. if project_id q = projectId
                                      then q\<lparr>project_status := IN_PROGRESS, project_sellerId := sellerId\<rparr>
                                      else q) (projects s),
                 bids := map (\<lambda>c. if bid_projectId c = projectId \<and> bid_id c \<noteq> the bidId
                                   then c\<lparr>bid_status := REJECTED\<rparr> else c)
                          (map (\<lambda>c. if bid_id c = the bidId then c\<lparr>bid_status := ACCEPTED\<rparr> else c)
                             (bids s))\<rparr>))"
  by (auto simp: selectBid_def project_update_def bid_update_def bid_updateMany_def Let_def
           bid_findUnique_def
           split: if_splits option.splits prod.splits)

lemma completeProject_shape:
  "completeProject u projectId s = (x, s')
    \<Longrightarrow> s' = s \<or> (\<exists>p. project_findUnique s projectId = Some p \<and> project_status p = IN_PROGRESS
                    \<and> s' = s\<lparr>projects := map (\<lambda>q. if project_id q = projectId
                                                  then q\<lparr>project_status := COMPLETED\<rparr> else q)
                                            (projects s)\<rparr>)"
  by (auto simp: completeProject_def project_update_def split: if_splits option.splits)

lemma createFileRecords_shape:
  "createFileRecords projectId fs s = (x, s')
    \<Longrightarrow> users s' = users s \<and> projects s' = projects s \<and> bids s' = bids s"
  by (induction projectId fs s rule: createFileRecords.induct)
     (auto simp: file_create_def split: option.splits if_splits)

lemma uploadProjectFiles_shape:
  "uploadProjectFiles u projectId reqFiles s = (x, s')
    \<Longrightarrow> users s' = users s \<and> projects s' = projects s \<and> bids s' = bids s"
  by (auto simp: uploadProjectFiles_def split: if_splits option.splits prod.splits
           dest: createFileRecords_shape)

lemma createBid_shape:
  "createBid u projectId amount deliveryTime message newId now s = (x, s')
    \<Longrightarrow> s' = s \<or> (\<exists>b. s' = s\<lparr>bids := bids s @ [b]\<rparr> \<and> bid_id b \<notin> set (map bid_id (bids s))
                    \<and> bid_sellerId b = user_id u \<and> user_role u = SELLER
                    \<and> find (\<lambda>c. bid_projectId c = bid_projectId b \<and> bid_sellerId c = bid_sellerId b)
                          (bids s) = None)"
  by (auto simp: createBid_def Let_def bid_create_def bid_findFirst_def split: if_splits option.splits)

lemma updateBid_shape:
  "updateBid u bidId amount deliveryTime message s = (x, s')
    \<Longrightarrow> s' = s \<or> (\<exists>d. s' = s\<lparr>bids := map (\<lambda>c. if bid_id c = bidId then applyBidUpdate d c else c)
                                          (bids s)\<rparr>)"
  by (auto simp: updateBid_def Let_def bid_update_def split: if_splits option.splits)

lemma deleteBid_shape:
  "deleteBid u bidId s = (x, s')
    \<Longrightarrow> s' = s \<or> s' = s\<lparr>bids := filter (\<lambda>c. bid_id c \<noteq> bidId) (bids s)\<rparr>"
  by (auto simp: deleteBid_def bid_delete_def split: if_splits option.splits)

lemma exec_handler:
  assumes "exec e r s = (x, s')"
  obtains
    (unchanged) "s' = s"
  | (register) name email password role newId where
      "register e name email password role newId s = (x, s')"
  | (createProject) h u title description budget deadline newId where
      "authenticate e h s = Inr u"
      "createProject e u title description budget deadline newId s = (x, s')"
  | (updateProject) h u projectId title description budget deadline where
      "authenticate e h s = Inr u"
      "updateProject e u projectId title description budget deadline s = (x, s')"
  | (deleteProject) h u projectId where
      "authenticate e h s = Inr u" "deleteProject u projectId s = (x, s')"
  | (selectBid) h u projectId bidId sellerId where
      "authenticate e h s = Inr u" "selectBid u projectId bidId sellerId s = (x, s')"
  | (completeProject) h u projectId where
      "authenticate e h s = Inr u" "completeProject u projectId s = (x, s')"
  | (uploadProjectFiles) h u projectId reqFiles where
      "authenticate e h s = Inr u" "uploadProjectFiles u projectId reqFiles s = (x, s')"
  | (createBid) h u projectId amount deliveryTime message newId now where
      "authenticate e h s = Inr u"
      "createBid u projectId amount deliveryTime message newId now s = (x, s')"
  | (updateBid) h u bidId amount deliveryTime message where
      "authenticate e h s = Inr u" "updateBid u bidId amount deliveryTime message s = (x, s')"
  | (deleteBid) h u bidId where
      "authenticate e h s = Inr u" "deleteBid u bidId s = (x, s')"
proof (cases r)
  case (Register name email password role newId)
  with assms show ?thesis by (auto intro: register)
next
  case (Login email password)
  with assms have "s' = s" by (auto dest: login_unchanged)
  then show ?thesis by (rule unchanged)
next
  case (CreateProject h title description budget deadline newId)
  with assms show ?thesis
    by (auto simp: withUser_def guarded_def split: sum.splits option.splits
             intro: unchanged createProject)
next
  case (UpdateProject h projectId title description budget deadline)
  with assms show ?thesis
    by (auto simp: withUser_def guarded_def split: sum.splits option.splits
             intro: unchanged updateProject)
next
  case (DeleteProject h projectId)
  with assms show ?thesis
    by (auto simp: withUser_def guarded_def split: sum.splits option.splits
             intro: unchanged deleteProject)
next
  case (GetProjectBids h projectId)
  with assms have "s' = s"
    by (auto simp: withUser_def split: sum.splits dest: getProjectBids_unchanged)
  then show ?thesis by (rule unchanged)
next
  case (SelectBid h projectId bidId sellerId)
  with assms show ?thesis
    by (auto simp: withUser_def guarded_def split: sum.splits option.splits
             intro: unchanged selectBid)
next
  case (CompleteProject h projectId)
  with assms show ?thesis
    by (auto simp: withUser_def guarded_def split: sum.splits option.splits
             intro: unchanged completeProject)
next
  case (UploadProjectFiles h projectId reqFiles)
  with assms show ?thesis
    by (auto simp: withUser_def guarded_def split: sum.splits option.splits
             intro: unchanged uploadProjectFiles)
next
  case (CreateBid h projectId amount deliveryTime message newId now)
  with assms show ?thesis
    by (auto simp: withUser_def guarded_def split: sum.splits option.splits
             intro: unchanged createBid)
next
  case (UpdateBid h bidId amount deliveryTime message)
  with assms show ?thesis
    by (auto simp: withUser_def guarded_def split: sum.splits option.splits
             intro: unchanged updateBid)
next
  case (DeleteBid h bidId)
  with assms show ?thesis
    by (auto simp: withUser_def guarded_def split: sum.splits option.splits
             intro: unchanged deleteBid)
qed

section \<open>Consistency of the stores the requests build\<close>

text \<open>
  Every request keeps a consistent store consistent, and the empty store is consistent:
  the hypotheses on the store made by the theorems on selectBid and on the bid list hold
  in every store that a sequence of requests builds from the empty one.
\<close>

lemma ownersAreBuyers_iff:
  "ownersAreBuyers s \<longleftrightarrow>
     (\<forall>p \<in> set (projects s). \<exists>u. user_findUnique s (project_buyerId p) = Some u \<and> user_role u = BUYER)"
  by (auto simp: ownersAreBuyers_def split: option.splits)

lemma biddersAreSellers_iff:
  "biddersAreSellers s \<longleftrightarrow>
     (\<forall>b \<in> set (bids s). \<exists>u. user_findUnique s (bid_sellerId b) = Some u \<and> user_role u = SELLER)"
  by (auto simp: biddersAreSellers_def split: option.splits)

lemma user_findUnique_same:
  "users s' = users s \<Longrightarrow> user_findUnique s' i = user_findUnique s i"
  by (simp add: user_findUnique_def)

lemma user_findUnique_added:
  "users s' = users s @ [u] \<Longrightarrow> user_findUnique s i = Some x \<Longrightarrow> user_findUnique s' i = Some x"
  by (simp add: user_findUnique_def find_append_one)

lemma consistent_keep:
  assumes c: "consistent s" and u: "users s' = users s"
    and p: "projects s' = map g (projects s)"
    and pg: "\<And>q. project_buyerId (g q) = project_buyerId q"
    and b: "bids s' = map f (bids s)"
    and f1: "\<And>c. bid_id (f c) = bid_id c"
    and f2: "\<And>c. bid_projectId (f c) = bid_projectId c"
    and f3: "\<And>c. bid_sellerId (f c) = bid_sellerId c"
  shows "consistent s'"
proof -
  have "map bid_id (bids s') = map bid_id (bids s)"
    by (simp add: b f1)
  moreover have "map (\<lambda>b. (bid_projectId b, bid_sellerId b)) (bids s')
                  = map (\<lambda>b. (bid_projectId b, bid_sellerId b)) (bids s)"
    by (simp add: b f2 f3)
  moreover have "ownersAreBuyers s'"
    using c by (simp add: consistent_def ownersAreBuyers_iff p pg user_findUnique_same [OF u])
  moreover have "biddersAreSellers s'"
    using c by (simp add: consistent_def biddersAreSellers_iff b f3 user_findUnique_same [OF u])
  ultimately show ?thesis
    using c by (simp add: consistent_def oneBidPerSeller_def)
qed

lemma consistent_unchanged_rows:
  assumes "consistent s" and "users s' = users s" and "projects s' = projects s"
    and "bids s' = bids s"
  shows "consistent s'"
  using assms(1) by (rule consistent_keep [where g = "\<lambda>q. q" and f = "\<lambda>c. c"]) (simp_all add: assms)

lemma consistent_filter_projects:
  assumes c: "consistent s" and u: "users s' = users s"
    and p: "projects s' = filter P (projects s)" and b: "bids s' = bids s"
  shows "consistent s'"
proof -
  have "ownersAreBuyers s'"
    using c by (simp add: consistent_def ownersAreBuyers_iff p user_findUnique_same [OF u])
  moreover have "biddersAreSellers s'"
    using c by (simp add: consistent_def biddersAreSellers_iff b user_findUnique_same [OF u])
  ultimately show ?thesis
    using c by (simp add: consistent_def oneBidPerSeller_def b)
qed

lemma consistent_filter_bids:
  assumes c: "consistent s" and u: "users s' = users s"
    and p: "projects s' = projects s" and b: "bids s' = filter P (bids s)"
  shows "consistent s'"
proof -
  have "ownersAreBuyers s'"
    using c by (simp add: consistent_def ownersAreBuyers_iff p user_findUnique_same [OF u])
  moreover have "biddersAreSellers s'"
    using c by (simp add: consistent_def biddersAreSellers_iff b user_findUnique_same [OF u])
  ultimately show ?thesis
    using c by (simp add: consistent_def oneBidPerSeller_def b distinct_map_filter)
qed

lemma consistent_add_user:
  assumes c: "consistent s" and u: "users s' = users s @ [u]"
    and p: "projects s' = projects s" and b: "bids s' = bids s"
  shows "consistent s'"
proof -
  have "ownersAreBuyers s'"
    using c user_findUnique_added [OF u]
    by (fastforce simp: consistent_def ownersAreBuyers_iff p)
  moreover have "biddersAreSellers s'"
    using c user_findUnique_added [OF u]
    by (fastforce simp: consistent_def biddersAreSellers_iff b)
  ultimately show ?thesis
    using c by (simp add: consistent_def oneBidPerSeller_def b)
qed

lemma consistent_add_project:
  assumes c: "consistent s" and u: "users s' = users s"
    and p: "projects s' = projects s @ [q]" and b: "bids s' = bids s"
    and o: "user_findUnique s (project_buyerId q) = Some x" "user_role x = BUYER"
  shows "consistent s'"
proof -
  have "ownersAreBuyers s'"
    using c o by (auto simp: consistent_def ownersAreBuyers_iff p user_findUnique_same [OF u])
  moreover have "biddersAreSellers s'"
    using c by (simp add: consistent_def biddersAreSellers_iff b user_findUnique_same [OF u])
  ultimately show ?thesis
    using c by (simp add: consistent_def oneBidPerSeller_def b)
qed

lemma consistent_add_bid:
  assumes c: "consistent s" and u: "users s' = users s"
    and p: "projects s' = projects s" and b: "bids s' = bids s @ [n]"
    and i: "bid_id n \<notin> set (map bid_id (bids s))"
    and k: "find (\<lambda>c. bid_projectId c = bid_projectId n \<and> bid_sellerId c = bid_sellerId n) (bids s) = None"
    and o: "user_findUnique s (bid_sellerId n) = Some x" "user_role x = SELLER"
  shows "consistent s'"
proof -
  have "ownersAreBuyers s'"
    using c by (simp add: consistent_def ownersAreBuyers_iff p user_findUnique_same [OF u])
  moreover have "biddersAreSellers s'"
    using c o by (auto simp: consistent_def biddersAreSellers_iff b user_findUnique_same [OF u])
  moreover have "(bid_projectId n, bid_sellerId n)
                   \<notin> set (map (\<lambda>b. (bid_projectId b, bid_sellerId b)) (bids s))"
    using k by (auto simp: find_None_iff)
  ultimately show ?thesis
    using c i by (simp add: consistent_def oneBidPerSeller_def b)
qed

lemma consistent_empty: "consistent empty_store"
  by (simp add: consistent_def oneBidPerSeller_def ownersAreBuyers_def biddersAreSellers_def
        empty_store_def)

lemma consistent_exec:
  assumes c: "consistent s" and r: "exec e r s = (x, s')"
  shows "consistent s'"
  using r
proof (cases rule: exec_handler)
  case unchanged
  with c show ?thesis by simp
next
  case (register name email password role newId)
  from register_shape [OF this] c show ?thesis
    by (auto intro: consistent_add_user [OF c])
next
  case (createProject h u title description budget deadline newId)
  from createProject_shape [OF createProject(2)] authenticate_user [OF createProject(1)] c
  show ?thesis
    by (auto intro: consistent_add_project [OF c])
next
  case (updateProject h u projectId title description budget deadline)
  from updateProject_shape [OF updateProject(2)] show ?thesis
  proof (elim disjE exE conjE)
    assume "s' = s" with c show ?thesis by simp
  next
    fix p d
    assume s': "s' = s\<lparr>projects := map (\<lambda>q. if project_id q = projectId
                                                  then applyProjectUpdate d q else q) (projects s)\<rparr>"
    show ?thesis
      by (rule consistent_keep [OF c, where f = "\<lambda>c. c"
             and g = "\<lambda>q. if project_id q = projectId then applyProjectUpdate d q else q"])
         (simp_all add: s' applyProjectUpdate_keeps)
  qed
next
  case (deleteProject h u projectId)
  from deleteProject_shape [OF deleteProject(2)] show ?thesis
  proof (elim disjE exE conjE)
    assume "s' = s" with c show ?thesis by simp
  next
    fix p
    assume s': "s' = s\<lparr>projects := filter (\<lambda>q. project_id q \<noteq> projectId) (projects s),
                              files := filter (\<lambda>f. file_projectId f \<noteq> projectId) (files s)\<rparr>"
    show ?thesis
      by (rule consistent_filter_projects [OF c, where P = "\<lambda>q. project_id q \<noteq> projectId"])
         (simp_all add: s')
  qed
next
  case (selectBid h u projectId bidId sellerId)
  define g :: "project \<Rightarrow> project" where
    "g = (\<lambda>q. if project_id q = projectId
              then q\<lparr>project_status := IN_PROGRESS, project_sellerId := sellerId\<rparr> else q)"
  define f :: "bid \<Rightarrow> bid" where
    "f = (\<lambda>c. if bid_projectId c = projectId \<and> bid_id c \<noteq> the bidId
              then c\<lparr>bid_status := REJECTED\<rparr> else c) \<circ>
         (\<lambda>c. if bid_id c = the bidId then c\<lparr>bid_status := ACCEPTED\<rparr> else c)"
  have pg: "\<And>q. project_buyerId (g q) = project_buyerId q"
    by (simp add: g_def)
  have fk: "\<And>c. bid_id (f c) = bid_id c" "\<And>c. bid_projectId (f c) = bid_projectId c"
    "\<And>c. bid_sellerId (f c) = bid_sellerId c"
    by (simp_all add: f_def)
  from selectBid_shape [OF selectBid(2)]
  consider "s' = s" | "s' = s\<lparr>projects := map g (projects s)\<rparr>"
    | "s' = s\<lparr>projects := map g (projects s), bids := map f (bids s)\<rparr>"
    unfolding g_def f_def by (auto simp: comp_def)
  then show ?thesis
  proof cases
    case 1 with c show ?thesis by simp
  next
    case 2
    show ?thesis
      by (rule consistent_keep [OF c, where f = "\<lambda>c. c" and g = g]) (simp_all add: 2 pg)
  next
    case 3
    show ?thesis
      by (rule consistent_keep [OF c, where f = f and g = g]) (simp_all add: 3 pg fk)
  qed
next
  case (completeProject h u projectId)
  from completeProject_shape [OF completeProject(2)] show ?thesis
  proof (elim disjE exE conjE)
    assume "s' = s" with c show ?thesis by simp
  next
    fix p
    assume s': "s' = s\<lparr>projects := map (\<lambda>q. if project_id q = projectId
                                                  then q\<lparr>project_status := COMPLETED\<rparr> else q)
                                            (projects s)\<rparr>"
    show ?thesis
      by (rule consistent_keep [OF c, where f = "\<lambda>c. c"
             and g = "\<lambda>q. if project_id q = projectId then q\<lparr>project_status := COMPLETED\<rparr> else q"])
         (simp_all add: s')
  qed
next
  case (uploadProjectFiles h u projectId reqFiles)
  from uploadProjectFiles_shape [OF uploadProjectFiles(2)] show ?thesis
    by (auto intro: consistent_unchanged_rows [OF c])
next
  case (createBid h u projectId amount deliveryTime message newId now)
  from createBid_shape [OF createBid(2)] authenticate_user [OF createBid(1)] show ?thesis
  proof (elim disjE exE conjE)
    assume "s' = s" with c show ?thesis by simp
  next
    fix b
    assume a: "user_findUnique s (user_id u) = Some u"
      and s': "s' = s\<lparr>bids := bids s @ [b]\<rparr>" and i: "bid_id b \<notin> set (map bid_id (bids s))"
      and o: "bid_sellerId b = user_id u" "user_role u = SELLER"
      and k: "find (\<lambda>c. bid_projectId c = bid_projectId b \<and> bid_sellerId c = bid_sellerId b)
                          (bids s) = None"
    show ?thesis
      by (rule consistent_add_bid [OF c _ _ _ i k, where x = u]) (simp_all add: s' o a)
  qed
next
  case (updateBid h u bidId amount deliveryTime message)
  from updateBid_shape [OF updateBid(2)] show ?thesis
  proof (elim disjE exE conjE)
    assume "s' = s" with c show ?thesis by simp
  next
    fix d
    assume s': "s' = s\<lparr>bids := map (\<lambda>c. if bid_id c = bidId then applyBidUpdate d c else c)
                                          (bids s)\<rparr>"
    show ?thesis
      by (rule consistent_keep [OF c, where g = "\<lambda>q. q"
             and f = "\<lambda>c. if bid_id c = bidId then applyBidUpdate d c else c"])
         (simp_all add: s' applyBidUpdate_def)
  qed
next
  case (deleteBid h u bidId)
  from deleteBid_shape [OF deleteBid(2)] show ?thesis
  proof (elim disjE)
    assume "s' = s" with c show ?thesis by simp
  next
    assume s': "s' = s\<lparr>bids := filter (\<lambda>c. bid_id c \<noteq> bidId) (bids s)\<rparr>"
    show ?thesis
      by (rule consistent_filter_bids [OF c, where P = "\<lambda>c. bid_id c \<noteq> bidId"]) (simp_all add: s')
  qed
qed

lemma consistent_run: "consistent s \<Longrightarrow> consistent (run e rs s)"
proof (induction rs arbitrary: s)
  case Nil
  then show ?case by simp
next
  case (Cons r rs)
  have "consistent (snd (exec e r s))"
    using Cons.prems by (rule consistent_exec) (simp add: prod_eq_iff)
  then show ?case by (simp add: Cons.IH)
qed

section \<open>The status of a project\<close>

lemma forwardStep_refl: "forwardStep x x"
  by (simp add: forwardStep_def split: option.splits)

lemma forwardStep_same:
  "projects s' = projects s \<Longrightarrow> forwardStep (project_findUnique s j) (project_findUnique s' j)"
  by (simp add: project_findUnique_def forwardStep_refl)

lemma forwardStep_append:
  "projects s' = projects s @ [q] \<Longrightarrow> project_status q = PENDING
    \<Longrightarrow> forwardStep (project_findUnique s j) (project_findUnique s' j)"
  by (simp add: project_findUnique_def find_append_one forwardStep_def split: option.splits)

lemma forwardStep_map:
  assumes "projects s' = map g (projects s)" and "\<And>q. project_id (g q) = project_id q"
    and "\<And>q. project_findUnique s j = Some q \<Longrightarrow> forwardStep (Some q) (Some (g q))"
  shows "forwardStep (project_findUnique s j) (project_findUnique s' j)"
proof (cases "project_findUnique s j")
  case None
  then have "project_findUnique s' j = None"
    using assms(1,2) by (simp add: project_findUnique_def find_map_key)
  with None show ?thesis by (simp add: forwardStep_def)
next
  case (Some q)
  then have "project_findUnique s' j = Some (g q)"
    using assms(1,2) by (simp add: project_findUnique_def find_map_key)
  with Some assms(3) show ?thesis by simp
qed

lemma forwardStep_filter:
  assumes "projects s' = filter (\<lambda>q. project_id q \<noteq> i) (projects s)"
    and "project_findUnique s i = Some p" and "project_status p = PENDING"
  shows "forwardStep (project_findUnique s j) (project_findUnique s' j)"
  using assms
  by (cases "j = i")
     (auto simp: project_findUnique_def find_filter_key forwardStep_def split: option.splits)

lemma forwardStep_exec:
  assumes r: "exec e r s = (x, s')"
  shows "forwardStep (project_findUnique s j) (project_findUnique s' j)"
  using r
proof (cases rule: exec_handler)
  case unchanged
  then show ?thesis by (simp add: forwardStep_refl)
next
  case (register name email password role newId)
  from register_shape [OF this] show ?thesis
    by (auto intro: forwardStep_same simp: forwardStep_refl)
next
  case (createProject h u title description budget deadline newId)
  from createProject_shape [OF createProject(2)] show ?thesis
    by (auto intro: forwardStep_append simp: forwardStep_refl)
next
  case (updateProject h u projectId title description budget deadline)
  from updateProject_shape [OF updateProject(2)] show ?thesis
  proof (elim disjE exE conjE)
    assume "s' = s" then show ?thesis by (simp add: forwardStep_refl)
  next
    fix p d
    assume s': "s' = s\<lparr>projects := map (\<lambda>q. if project_id q = projectId
                                                  then applyProjectUpdate d q else q) (projects s)\<rparr>"
    show ?thesis
      by (rule forwardStep_map [where g = "\<lambda>q. if project_id q = projectId
                                                  then applyProjectUpdate d q else q"])
         (simp_all add: s' applyProjectUpdate_keeps forwardStep_def)
  qed
next
  case (deleteProject h u projectId)
  from deleteProject_shape [OF deleteProject(2)] show ?thesis
  proof (elim disjE exE conjE)
    assume "s' = s" then show ?thesis by (simp add: forwardStep_refl)
  next
    fix p
    assume p: "project_findUnique s projectId = Some p" "project_status p = PENDING"
      and s': "s' = s\<lparr>projects := filter (\<lambda>q. project_id q \<noteq> projectId) (projects s),
                              files := filter (\<lambda>f. file_projectId f \<noteq> projectId) (files s)\<rparr>"
    show ?thesis
      by (rule forwardStep_filter [OF _ p]) (simp add: s')
  qed
next
  case (selectBid h u projectId bidId sellerId)
  define g :: "project \<Rightarrow> project" where
    "g = (\<lambda>q. if project_id q = projectId
              then q\<lparr>project_status := IN_PROGRESS, project_sellerId := sellerId\<rparr> else q)"
  have gi: "\<And>q. project_id (g q) = project_id q"
    by (simp add: g_def)
  from selectBid_shape [OF selectBid(2)]
  consider "s' = s"
    | p where "project_findUnique s projectId = Some p" "project_status p = PENDING"
        "projects s' = map g (projects s)"
    unfolding g_def by auto
  then show ?thesis
  proof cases
    case 1 then show ?thesis by (simp add: forwardStep_refl)
  next
    case (2 p)
    show ?thesis
    proof (rule forwardStep_map [OF 2(3) gi])
      fix q assume q: "project_findUnique s j = Some q"
      then have qi: "project_id q = j"
        by (auto simp: project_findUnique_def dest: find_SomeD)
      show "forwardStep (Some q) (Some (g q))"
      proof (cases "j = projectId")
        case True
        with q 2 have "q = p" by simp
        with 2 qi True show ?thesis by (simp add: g_def forwardStep_def)
      next
        case False
        with qi show ?thesis by (simp add: g_def forwardStep_def)
      qed
    qed
  qed
next
  case (completeProject h u projectId)
  define g :: "project \<Rightarrow> project" where
    "g = (\<lambda>q. if project_id q = projectId then q\<lparr>project_status := COMPLETED\<rparr> else q)"
  have gi: "\<And>q. project_id (g q) = project_id q"
    by (simp add: g_def)
  from completeProject_shape [OF completeProject(2)]
  consider "s' = s"
    | p where "project_findUnique s projectId = Some p" "project_status p = IN_PROGRESS"
        "projects s' = map g (projects s)"
    unfolding g_def by auto
  then show ?thesis
  proof cases
    case 1 then show ?thesis by (simp add: forwardStep_refl)
  next
    case (2 p)
    show ?thesis
    proof (rule forwardStep_map [OF 2(3) gi])
      fix q assume q: "project_findUnique s j = Some q"
      then have qi: "project_id q = j"
        by (auto simp: project_findUnique_def dest: find_SomeD)
      show "forwardStep (Some q) (Some (g q))"
      proof (cases "j = projectId")
        case True
        with q 2 have "q = p" by simp
        with 2 qi True show ?thesis by (simp add: g_def forwardStep_def)
      next
        case False
        with qi show ?thesis by (simp add: g_def forwardStep_def)
      qed
    qed
  qed
next
  case (uploadProjectFiles h u projectId reqFiles)
  from uploadProjectFiles_shape [OF uploadProjectFiles(2)] show ?thesis
    by (auto intro: forwardStep_same)
next
  case (createBid h u projectId amount deliveryTime message newId now)
  from createBid_shape [OF createBid(2)] show ?thesis
    by (auto intro: forwardStep_same simp: forwardStep_refl)
next
  case (updateBid h u bidId amount deliveryTime message)
  from updateBid_shape [OF updateBid(2)] show ?thesis
    by (auto intro: forwardStep_same simp: forwardStep_refl)
next
  case (deleteBid h u bidId)
  from deleteBid_shape [OF deleteBid(2)] show ?thesis
    by (auto intro: forwardStep_same simp: forwardStep_refl)
qed

lemma started_stays_started:
  "project_findUnique s j = Some p \<Longrightarrow> project_status p \<noteq> PENDING
    \<Longrightarrow> \<exists>q. project_findUnique (run e rs s) j = Some q \<and> project_status q \<noteq> PENDING
            \<and> (project_status p = COMPLETED \<longrightarrow> project_status q = COMPLETED)"
proof (induction rs arbitrary: s p)
  case Nil
  then show ?case by simp
next
  case (Cons r rs)
  have "forwardStep (project_findUnique s j) (project_findUnique (snd (exec e r s)) j)"
    by (rule forwardStep_exec) (simp add: prod_eq_iff)
  with Cons.prems obtain q where q: "project_findUnique (snd (exec e r s)) j = Some q"
    "project_status q \<noteq> PENDING" "project_status p = COMPLETED \<longrightarrow> project_status q = COMPLETED"
    by (auto simp: forwardStep_def split: option.splits)
  from Cons.IH [OF q(1,2), of ] q(3) show ?case
    by auto
qed

lemma exec_owner_routes:
  assumes a: "authenticate e h s = Inr u" and p: "project_findUnique s j = Some p"
    and o: "project_buyerId p = user_id u"
  shows "exec e (UpdateProject h j title description budget deadline) s
           = updateProject e u j title description budget deadline s"
    and "exec e (DeleteProject h j) s = deleteProject u j s"
    and "exec e (SelectBid h j bidId sellerId) s = selectBid u j bidId sellerId s"
  using a p o by (simp_all add: withUser_def guarded_def requireProjectOwner_def)

lemma completed_handlers:
  assumes p: "project_findUnique s j = Some p" and c: "project_status p = COMPLETED"
    and o: "project_buyerId p = user_id u"
  shows "updateProject e u j title description budget deadline s
           = (Inl (AppError 400 ''Cannot update a project that is already in progress or completed''), s)"
    and "deleteProject u j s
           = (Inl (AppError 400 ''Cannot delete a project that is already in progress or completed''), s)"
    and "selectBid u j bidId sellerId s
           = (if \<not> truthy bidId \<or> \<not> truthy sellerId
              then (Inl (AppError 400 ''Bid ID and Seller ID are required''), s)
              else (Inl (AppError 400
                ''Cannot select a bid for a project that is already in progress or completed''), s))"
  using p c o by (simp_all add: updateProject_def deleteProject_def selectBid_def)


lemma exec_unauthenticated:
  assumes "authenticate e h s = Inl err"
  shows "exec e (UpdateProject h j title description budget deadline) s = (Inl err, s)"
    and "exec e (DeleteProject h j) s = (Inl err, s)"
    and "exec e (SelectBid h j bidId sellerId) s = (Inl err, s)"
  using assms by (simp_all add: withUser_def)

lemma exec_not_owner:
  assumes "authenticate e h s = Inr u" and "project_findUnique s j = Some p"
    and "project_buyerId p \<noteq> user_id u"
  shows "exec e (UpdateProject h j title description budget deadline) s
           = (Inl (AppError 403 ''Access denied. You do not own this project''), s)"
    and "exec e (DeleteProject h j) s
           = (Inl (AppError 403 ''Access denied. You do not own this project''), s)"
    and "exec e (SelectBid h j bidId sellerId) s
           = (Inl (AppError 403 ''Access denied. You do not own this project''), s)"
  using assms by (simp_all add: withUser_def guarded_def requireProjectOwner_def)

lemma completed_requests_fail:
  assumes p: "project_findUnique s j = Some p" and c: "project_status p = COMPLETED"
  shows "\<exists>err. exec e (UpdateProject h j title description budget deadline) s = (Inl err, s)"
    and "\<exists>err. exec e (DeleteProject h j) s = (Inl err, s)"
    and "\<exists>err. exec e (SelectBid h j bidId sellerId) s = (Inl err, s)"
proof -
  consider err where "authenticate e h s = Inl err"
    | u where "authenticate e h s = Inr u" "project_buyerId p \<noteq> user_id u"
    | u where "authenticate e h s = Inr u" "project_buyerId p = user_id u"
    by (cases "authenticate e h s") auto
  then have "(\<exists>err. exec e (UpdateProject h j title description budget deadline) s = (Inl err, s))
       \<and> (\<exists>err. exec e (DeleteProject h j) s = (Inl err, s))
       \<and> (\<exists>err. exec e (SelectBid h j bidId sellerId) s = (Inl err, s))"
  proof cases
    case 1
    then show ?thesis by (simp del: exec.simps add: exec_unauthenticated)
  next
    case 2
    then show ?thesis by (simp del: exec.simps add: exec_not_owner [OF _ p])
  next
    case 3
    then show ?thesis
      by (simp del: exec.simps add: exec_owner_routes [OF _ p] completed_handlers [OF p c])
  qed
  then show "\<exists>err. exec e (UpdateProject h j title description budget deadline) s = (Inl err, s)"
    and "\<exists>err. exec e (DeleteProject h j) s = (Inl err, s)"
    and "\<exists>err. exec e (SelectBid h j bidId sellerId) s = (Inl err, s)"
    by blast+
qed

lemma authenticate_error_kind:
  "authenticate e h s = Inl err \<Longrightarrow> err = DriverError \<or> (\<exists>m. err = AppError 401 m)"
  by (auto simp: authenticate_def Let_def split: if_splits jwt_result.splits option.splits)

text \<open>
  C2 (as amended). A request never moves the status of a project backward and never
  skips a step: a project appears as PENDING, is deleted only while PENDING, and
  otherwise keeps its status or moves from PENDING to IN_PROGRESS or from IN_PROGRESS to
  COMPLETED. Over any sequence of requests a project that has left PENDING stays, never
  returns to PENDING, and once COMPLETED stays COMPLETED. On a completed project every
  update, delete and selectBid fails and leaves the store unchanged, with the error of
  the first check that refuses it. When authentication fails the error is that of the
  authentication: UNAUTHORIZED (401), or an error without status code (answered 500)
  when the token verifier fails otherwise, as for a token that is not yet active. When
  the authenticated user does not own the project the error is FORBIDDEN (403). When the
  owner sends the request, update and delete fail with PRECONDITION (400), selectBid
  with a bid id and a seller id fails with PRECONDITION (400), and selectBid without one
  of them fails with VALIDATION (400, "Bid ID and Seller ID are required").
\<close>

theorem project_status_forward:
  "forwardStep (project_findUnique s j) (project_findUnique (snd (exec e r s)) j)
   \<and> (\<forall>p. project_findUnique s j = Some p \<and> project_status p \<noteq> PENDING \<longrightarrow>
        (\<exists>q. project_findUnique (run e rs s) j = Some q \<and> project_status q \<noteq> PENDING
             \<and> (project_status p = COMPLETED \<longrightarrow> project_status q = COMPLETED)))
   \<and> (\<forall>p. project_findUnique s j = Some p \<and> project_status p = COMPLETED \<longrightarrow>
        (\<exists>err. exec e (UpdateProject h j title description budget deadline) s = (Inl err, s))
        \<and> (\<exists>err. exec e (DeleteProject h j) s = (Inl err, s))
        \<and> (\<exists>err. exec e (SelectBid h j bidId sellerId) s = (Inl err, s))
        \<and> (\<forall>err. authenticate e h s = Inl err \<longrightarrow>
             (err = DriverError \<or> (\<exists>m. err = AppError 401 m))
           \<and> exec e (UpdateProject h j title description budget deadline) s = (Inl err, s)
           \<and> exec e (DeleteProject h j) s = (Inl err, s)
           \<and> exec e (SelectBid h j bidId sellerId) s = (Inl err, s))
        \<and> (\<forall>u. authenticate e h s = Inr u \<and> project_buyerId p \<noteq> user_id u \<longrightarrow>
             exec e (UpdateProject h j title description budget deadline) s
               = (Inl (AppError 403 ''Access denied. You do not own this project''), s)
           \<and> exec e (DeleteProject h j) s
               = (Inl (AppError 403 ''Access denied. You do not own this project''), s)
           \<and> exec e (SelectBid h j bidId sellerId) s
               = (Inl (AppError 403 ''Access denied. You do not own this project''), s))
        \<and> (\<forall>u. authenticate e h s = Inr u \<and> project_buyerId p = user_id u \<longrightarrow>
             exec e (UpdateProject h j title description budget deadline) s
               = (Inl (AppError 400
                    ''Cannot update a project that is already in progress or completed''), s)
           \<and> exec e (DeleteProject h j) s
               = (Inl (AppError 400
                    ''Cannot delete a project that is already in progress or completed''), s)
           \<and> (truthy bidId \<and> truthy sellerId \<longrightarrow>
               exec e (SelectBid h j bidId sellerId) s
                 = (Inl (AppError 400
                      ''Cannot select a bid for a project that is already in progress or completed''),
                    s))
           \<and> (\<not> (truthy bidId \<and> truthy sellerId) \<longrightarrow>
               exec e (SelectBid h j bidId sellerId) s
                 = (Inl (AppError 400 ''Bid ID and Seller ID are required''), s))))"
proof -
  have one: "forwardStep (project_findUnique s j) (project_findUnique (snd (exec e r s)) j)"
    by (rule forwardStep_exec [where e = e and r = r and x = "fst (exec e r s)"])
       (rule prod.collapse [symmetric])
  have many: "\<forall>p. project_findUnique s j = Some p \<and> project_status p \<noteq> PENDING \<longrightarrow>
        (\<exists>q. project_findUnique (run e rs s) j = Some q \<and> project_status q \<noteq> PENDING
             \<and> (project_status p = COMPLETED \<longrightarrow> project_status q = COMPLETED))"
    using started_stays_started by blast
  have fin: "\<forall>p. project_findUnique s j = Some p \<and> project_status p = COMPLETED \<longrightarrow>
        (\<exists>err. exec e (UpdateProject h j title description budget deadline) s = (Inl err, s))
        \<and> (\<exists>err. exec e (DeleteProject h j) s = (Inl err, s))
        \<and> (\<exists>err. exec e (SelectBid h j bidId sellerId) s = (Inl err, s))
        \<and> (\<forall>err. authenticate e h s = Inl err \<longrightarrow>
             (err = DriverError \<or> (\<exists>m. err = AppError 401 m))
           \<and> exec e (UpdateProject h j title description budget deadline) s = (Inl err, s)
           \<and> exec e (DeleteProject h j) s = (Inl err, s)
           \<and> exec e (SelectBid h j bidId sellerId) s = (Inl err, s))
        \<and> (\<forall>u. authenticate e h s = Inr u \<and> project_buyerId p \<noteq> user_id u \<longrightarrow>
             exec e (UpdateProject h j title description budget deadline) s
               = (Inl (AppError 403 ''Access denied. You do not own this project''), s)
           \<and> exec e (DeleteProject h j) s
               = (Inl (AppError 403 ''Access denied. You do not own this project''), s)
           \<and> exec e (SelectBid h j bidId sellerId) s
               = (Inl (AppError 403 ''Access denied. You do not own this project''), s))
        \<and> (\<forall>u. authenticate e h s = Inr u \<and> project_buyerId p = user_id u \<longrightarrow>
             exec e (UpdateProject h j title description budget deadline) s
               = (Inl (AppError 400
                    ''Cannot update a project that is already in progress or completed''), s)
           \<and> exec e (DeleteProject h j) s
               = (Inl (AppError 400
                    ''Cannot delete a project that is already in progress or completed''), s)
           \<and> (truthy bidId \<and> truthy sellerId \<longrightarrow>
               exec e (SelectBid h j bidId sellerId) s
                 = (Inl (AppError 400
                      ''Cannot select a bid for a project that is already in progress or completed''),
                    s))
           \<and> (\<not> (truthy bidId \<and> truthy sellerId) \<longrightarrow>
               exec e (SelectBid h j bidId sellerId) s
                 = (Inl (AppError 400 ''Bid ID and Seller ID are required''), s)))"
  proof (intro allI impI, elim conjE)
    fix p assume p: "project_findUnique s j = Some p" and c: "project_status p = COMPLETED"
    have una: "\<forall>err. authenticate e h s = Inl err \<longrightarrow>
             (err = DriverError \<or> (\<exists>m. err = AppError 401 m))
           \<and> exec e (UpdateProject h j title description budget deadline) s = (Inl err, s)
           \<and> exec e (DeleteProject h j) s = (Inl err, s)
           \<and> exec e (SelectBid h j bidId sellerId) s = (Inl err, s)"
    proof (intro allI impI)
      fix err assume a: "authenticate e h s = Inl err"
      show "(err = DriverError \<or> (\<exists>m. err = AppError 401 m))
           \<and> exec e (UpdateProject h j title description budget deadline) s = (Inl err, s)
           \<and> exec e (DeleteProject h j) s = (Inl err, s)
           \<and> exec e (SelectBid h j bidId sellerId) s = (Inl err, s)"
        using authenticate_error_kind [OF a] exec_unauthenticated [OF a]
        by (intro conjI)
    qed
    have non: "\<forall>u. authenticate e h s = Inr u \<and> project_buyerId p \<noteq> user_id u \<longrightarrow>
             exec e (UpdateProject h j title description budget deadline) s
               = (Inl (AppError 403 ''Access denied. You do not own this project''), s)
           \<and> exec e (DeleteProject h j) s
               = (Inl (AppError 403 ''Access denied. You do not own this project''), s)
           \<and> exec e (SelectBid h j bidId sellerId) s
               = (Inl (AppError 403 ''Access denied. You do not own this project''), s)"
    proof (intro allI impI, elim conjE)
      fix u assume a: "authenticate e h s = Inr u" and o: "project_buyerId p \<noteq> user_id u"
      show "exec e (UpdateProject h j title description budget deadline) s
               = (Inl (AppError 403 ''Access denied. You do not own this project''), s)
           \<and> exec e (DeleteProject h j) s
               = (Inl (AppError 403 ''Access denied. You do not own this project''), s)
           \<and> exec e (SelectBid h j bidId sellerId) s
               = (Inl (AppError 403 ''Access denied. You do not own this project''), s)"
        using exec_not_owner [OF a p o] by (intro conjI)
    qed
    have own: "\<forall>u. authenticate e h s = Inr u \<and> project_buyerId p = user_id u \<longrightarrow>
             exec e (UpdateProject h j title description budget deadline) s
               = (Inl (AppError 400
                    ''Cannot update a project that is already in progress or completed''), s)
           \<and> exec e (DeleteProject h j) s
               = (Inl (AppError 400
                    ''Cannot delete a project that is already in progress or completed''), s)
           \<and> (truthy bidId \<and> truthy sellerId \<longrightarrow>
               exec e (SelectBid h j bidId sellerId) s
                 = (Inl (AppError 400
                      ''Cannot select a bid for a project that is already in progress or completed''),
                    s))
           \<and> (\<not> (truthy bidId \<and> truthy sellerId) \<longrightarrow>
               exec e (SelectBid h j bidId sellerId) s
                 = (Inl (AppError 400 ''Bid ID and Seller ID are required''), s))"
    proof (intro allI impI, elim conjE)
      fix u assume a: "authenticate e h s = Inr u" and o: "project_buyerId p = user_id u"
      show "exec e (UpdateProject h j title description budget deadline) s
               = (Inl (AppError 400
                    ''Cannot update a project that is already in progress or completed''), s)
           \<and> exec e (DeleteProject h j) s
               = (Inl (AppError 400
                    ''Cannot delete a project that is already in progress or completed''), s)
           \<and> (truthy bidId \<and> truthy sellerId \<longrightarrow>
               exec e (SelectBid h j bidId sellerId) s
                 = (Inl (AppError 400
                      ''Cannot select a bid for a project that is already in progress or completed''),
                    s))
           \<and> (\<not> (truthy bidId \<and> truthy sellerId) \<longrightarrow>
               exec e (SelectBid h j bidId sellerId) s
                 = (Inl (AppError 400 ''Bid ID and Seller ID are required''), s))"
        by (simp del: exec.simps add: exec_owner_routes [OF a p o] completed_handlers [OF p c o])
    qed
    from completed_requests_fail [OF p c] una non own
    show "(\<exists>err. exec e (UpdateProject h j title description budget deadline) s = (Inl err, s))
        \<and> (\<exists>err. exec e (DeleteProject h j) s = (Inl err, s))
        \<and> (\<exists>err. exec e (SelectBid h j bidId sellerId) s = (Inl err, s))
        \<and> (\<forall>err. authenticate e h s = Inl err \<longrightarrow>
             (err = DriverError \<or> (\<exists>m. err = AppError 401 m))
           \<and> exec e (UpdateProject h j title description budget deadline) s = (Inl err, s)
           \<and> exec e (DeleteProject h j) s = (Inl err, s)
           \<and> exec e (SelectBid h j bidId sellerId) s = (Inl err, s))
        \<and> (\<forall>u. authenticate e h s = Inr u \<and> project_buyerId p \<noteq> user_id u \<longrightarrow>
             exec e (UpdateProject h j title description budget deadline) s
               = (Inl (AppError 403 ''Access denied. You do not own this project''), s)
           \<and> exec e (DeleteProject h j) s
               = (Inl (AppError 403 ''Access denied. You do not own this project''), s)
           \<and> exec e (SelectBid h j bidId sellerId) s
               = (Inl (AppError 403 ''Access denied. You do not own this project''), s))
        \<and> (\<forall>u. authenticate e h s = Inr u \<and> project_buyerId p = user_id u \<longrightarrow>
             exec e (UpdateProject h j title description budget deadline) s
               = (Inl (AppError 400
                    ''Cannot update a project that is already in progress or completed''), s)
           \<and> exec e (DeleteProject h j) s
               = (Inl (AppError 400
                    ''Cannot delete a project that is already in progress or completed''), s)
           \<and> (truthy bidId \<and> truthy sellerId \<longrightarrow>
               exec e (SelectBid h j bidId sellerId) s
                 = (Inl (AppError 400
                      ''Cannot select a bid for a project that is already in progress or completed''),
                    s))
           \<and> (\<not> (truthy bidId \<and> truthy sellerId) \<longrightarrow>
               exec e (SelectBid h j bidId sellerId) s
                 = (Inl (AppError 400 ''Bid ID and Seller ID are required''), s)))"
      by (intro conjI)
  qed
  from one many fin show ?thesis by (intro conjI)
qed

theorem project_status_forward_witness:
  "exec env0 (CompleteProject (Some ''Bearer t:u1'') ''p1'') storeAwarded
     = (Inr (200, ProjectJson (projectP\<lparr>project_status := COMPLETED, project_sellerId := Some ''u2''\<rparr>)),
        storeDone)
   \<and> forwardStep (project_findUnique storeAwarded ''p1'') (project_findUnique storeDone ''p1'')
   \<and> project_findUnique storeDone ''p1''
       = Some (projectP\<lparr>project_status := COMPLETED, project_sellerId := Some ''u2''\<rparr>)
   \<and> authenticate env0 (Some ''Bearer t:u1'') storeDone = Inr buyerB
   \<and> exec env0 (UpdateProject (Some ''Bearer t:u1'') ''p1'' (Some ''Logo v2'') None None None) storeDone
       = (Inl (AppError 400 ''Cannot update a project that is already in progress or completed''),
          storeDone)
   \<and> exec env0 (DeleteProject (Some ''Bearer t:u1'') ''p1'') storeDone
       = (Inl (AppError 400 ''Cannot delete a project that is already in progress or completed''),
          storeDone)
   \<and> exec env0 (SelectBid (Some ''Bearer t:u1'') ''p1'' (Some ''b2'') (Some ''u3'')) storeDone
       = (Inl (AppError 400
            ''Cannot select a bid for a project that is already in progress or completed''),
          storeDone)
   \<and> exec env0 (SelectBid (Some ''Bearer t:u1'') ''p1'' (Some ''b2'') None) storeDone
       = (Inl (AppError 400 ''Bid ID and Seller ID are required''), storeDone)
   \<and> authenticate env0 (Some ''Bearer t:u2'') storeDone = Inr sellerS1
   \<and> exec env0 (DeleteProject (Some ''Bearer t:u2'') ''p1'') storeDone
       = (Inl (AppError 403 ''Access denied. You do not own this project''), storeDone)
   \<and> authenticate env0 (Some ''Bearer x'') storeDone = Inl (AppError 401 ''Invalid token'')
   \<and> exec env0 (UpdateProject (Some ''Bearer x'') ''p1'' (Some ''Logo v2'') None None None) storeDone
       = (Inl (AppError 401 ''Invalid token''), storeDone)"
proof -
  have a1: "authenticate env0 (Some ''Bearer t:u1'') storeAwarded = Inr buyerB"
    by (simp add: authenticate_def truthy_def user_findUnique_def fixtures)
  have pa: "project_findUnique storeAwarded ''p1''
       = Some (projectP\<lparr>project_status := IN_PROGRESS, project_sellerId := Some ''u2''\<rparr>)"
    by (simp add: project_findUnique_def fixtures)
  have c: "completeProject buyerB ''p1'' storeAwarded
     = (Inr (200, ProjectJson (projectP\<lparr>project_status := COMPLETED, project_sellerId := Some ''u2''\<rparr>)),
        storeDone)"
    by (simp add: completeProject_def project_update_def pa) (simp add: fixtures)
  have run: "exec env0 (CompleteProject (Some ''Bearer t:u1'') ''p1'') storeAwarded
     = (Inr (200, ProjectJson (projectP\<lparr>project_status := COMPLETED, project_sellerId := Some ''u2''\<rparr>)),
        storeDone)"
    using c by (simp add: withUser_def a1 guarded_def requireProjectOwner_def pa) (simp add: fixtures)
  have a: "authenticate env0 (Some ''Bearer t:u1'') storeDone = Inr buyerB"
    by (simp add: authenticate_def truthy_def user_findUnique_def fixtures)
  have a2: "authenticate env0 (Some ''Bearer t:u2'') storeDone = Inr sellerS1"
    by (simp add: authenticate_def truthy_def user_findUnique_def fixtures)
  have ax: "authenticate env0 (Some ''Bearer x'') storeDone = Inl (AppError 401 ''Invalid token'')"
    by (simp add: authenticate_def truthy_def env0_def)
  have p: "project_findUnique storeDone ''p1''
       = Some (projectP\<lparr>project_status := COMPLETED, project_sellerId := Some ''u2''\<rparr>)"
    by (simp add: project_findUnique_def fixtures)
  have o: "project_buyerId (projectP\<lparr>project_status := COMPLETED, project_sellerId := Some ''u2''\<rparr>)
             = user_id buyerB"
    by (simp add: fixtures)
  have o2: "project_buyerId (projectP\<lparr>project_status := COMPLETED, project_sellerId := Some ''u2''\<rparr>)
             \<noteq> user_id sellerS1"
    by (simp add: fixtures)
  have st: "project_status (projectP\<lparr>project_status := COMPLETED, project_sellerId := Some ''u2''\<rparr>)
             = COMPLETED"
    by simp
  have t: "truthy (Some ''b2'') \<and> truthy (Some ''u3'')"
    by (simp add: truthy_def)
  have t': "\<not> (truthy (Some ''b2'') \<and> truthy None)"
    by (simp add: truthy_def)
  have "forwardStep (project_findUnique storeAwarded ''p1'')
          (project_findUnique (snd (exec env0 (CompleteProject (Some ''Bearer t:u1'') ''p1'') storeAwarded)) ''p1'')"
    using project_status_forward [where s = storeAwarded and j = "''p1''" and e = env0
        and r = "CompleteProject (Some ''Bearer t:u1'') ''p1''"]
    by (rule conjunct1)
  then have f: "forwardStep (project_findUnique storeAwarded ''p1'') (project_findUnique storeDone ''p1'')"
    by (simp only: run snd_conv)
  from project_status_forward [where s = storeDone and j = "''p1''" and e = env0
         and h = "Some ''Bearer t:u1''" and title = "Some ''Logo v2''" and description = None
         and budget = None and deadline = None and bidId = "Some ''b2''" and sellerId = "Some ''u3''"]
       p st a o t
  have r1: "exec env0 (UpdateProject (Some ''Bearer t:u1'') ''p1'' (Some ''Logo v2'') None None None) storeDone
       = (Inl (AppError 400 ''Cannot update a project that is already in progress or completed''),
          storeDone)
   \<and> exec env0 (DeleteProject (Some ''Bearer t:u1'') ''p1'') storeDone
       = (Inl (AppError 400 ''Cannot delete a project that is already in progress or completed''),
          storeDone)
   \<and> exec env0 (SelectBid (Some ''Bearer t:u1'') ''p1'' (Some ''b2'') (Some ''u3'')) storeDone
       = (Inl (AppError 400
            ''Cannot select a bid for a project that is already in progress or completed''),
          storeDone)"
    by blast
  from project_status_forward [where s = storeDone and j = "''p1''" and e = env0
         and h = "Some ''Bearer t:u1''" and bidId = "Some ''b2''" and sellerId = None]
       p st a o t'
  have r2: "exec env0 (SelectBid (Some ''Bearer t:u1'') ''p1'' (Some ''b2'') None) storeDone
       = (Inl (AppError 400 ''Bid ID and Seller ID are required''), storeDone)"
    by blast
  from project_status_forward [where s = storeDone and j = "''p1''" and e = env0
         and h = "Some ''Bearer t:u2''"]
       p st a2 o2
  have r3: "exec env0 (DeleteProject (Some ''Bearer t:u2'') ''p1'') storeDone
       = (Inl (AppError 403 ''Access denied. You do not own this project''), storeDone)"
    by blast
  from project_status_forward [where s = storeDone and j = "''p1''" and e = env0
         and h = "Some ''Bearer x''" and title = "Some ''Logo v2''" and description = None
         and budget = None and deadline = None]
       p st ax
  have r4: "exec env0 (UpdateProject (Some ''Bearer x'') ''p1'' (Some ''Logo v2'') None None None) storeDone
       = (Inl (AppError 401 ''Invalid token''), storeDone)"
    by blast
  from run f p a r1 r2 a2 r3 ax r4 show ?thesis
    by (simp only: simp_thms)
qed

text \<open>
  The claim as stated fails on the kind of the failure: on the completed project of the
  scenario, an update or a delete sent by Bob, who does not own it, is refused by the
  owner check with FORBIDDEN (403), and a selectBid sent by Ann, the owner, with no bid
  id is refused by the validation of the body (400, "Bid ID and Seller ID are
  required"); both checks precede the check of the status.
\<close>

theorem project_status_forward_counterexample:
  "project_findUnique storeDone ''p1''
       = Some (projectP\<lparr>project_status := COMPLETED, project_sellerId := Some ''u2''\<rparr>)
   \<and> exec env0 (UpdateProject (Some ''Bearer t:u2'') ''p1'' (Some ''Logo v2'') None None None) storeDone
       = (Inl (AppError 403 ''Access denied. You do not own this project''), storeDone)
   \<and> exec env0 (DeleteProject (Some ''Bearer t:u2'') ''p1'') storeDone
       = (Inl (AppError 403 ''Access denied. You do not own this project''), storeDone)
   \<and> exec env0 (SelectBid (Some ''Bearer t:u1'') ''p1'' None None) storeDone
       = (Inl (AppError 400 ''Bid ID and Seller ID are required''), storeDone)"
proof -
  have a1: "authenticate env0 (Some ''Bearer t:u1'') storeDone = Inr buyerB"
    by (simp add: authenticate_def truthy_def user_findUnique_def fixtures)
  have a2: "authenticate env0 (Some ''Bearer t:u2'') storeDone = Inr sellerS1"
    by (simp add: authenticate_def truthy_def user_findUnique_def fixtures)
  have p: "project_findUnique storeDone ''p1''
       = Some (projectP\<lparr>project_status := COMPLETED, project_sellerId := Some ''u2''\<rparr>)"
    by (simp add: project_findUnique_def fixtures)
  have o1: "project_buyerId (projectP\<lparr>project_status := COMPLETED, project_sellerId := Some ''u2''\<rparr>)
             = user_id buyerB"
    by (simp add: fixtures)
  have o2: "project_buyerId (projectP\<lparr>project_status := COMPLETED, project_sellerId := Some ''u2''\<rparr>)
             \<noteq> user_id sellerS1"
    by (simp add: fixtures)
  have s: "selectBid buyerB ''p1'' None None storeDone
       = (Inl (AppError 400 ''Bid ID and Seller ID are required''), storeDone)"
    by (simp add: selectBid_def truthy_def)
  from exec_not_owner [OF a2 p o2] exec_owner_routes(3) [OF a1 p o1, of None None] s p
  show ?thesis by (simp del: exec.simps)
qed

section \<open>One bid per seller and project\<close>

lemma exec_CreateBid:
  assumes "authenticate e h s = Inr u"
  shows "exec e (CreateBid h projectId amount deliveryTime message newId now) s
           = (if user_role u \<noteq> SELLER then (Inl (AppError 403 ''Access denied. Sellers only''), s)
              else createBid u projectId amount deliveryTime message newId now s)"
  using assms by (simp add: withUser_def guarded_def requireSeller_def)

lemma createBid_existing:
  assumes y: "bid_findFirst s (\<lambda>b. bid_projectId b = pid \<and> bid_sellerId b = user_id u) = Some y"
    and r: "user_role u = SELLER" and p: "project_findUnique s pid = Some p"
  shows "createBid u (Some pid) amount deliveryTime message newId now s
           = (if pid = [] \<or> \<not> truthyNum amount \<or> \<not> truthyNum deliveryTime \<or> \<not> truthy message
              then (Inl (AppError 400 ''All fields are required''), s)
              else if project_status p \<noteq> PENDING
              then (Inl (AppError 400
                      ''Cannot bid on a project that is already in progress or completed''), s)
              else (Inl (AppError 400 ''You have already placed a bid on this project''), s))"
  using y r p by (simp add: createBid_def truthy_def)

lemma createBid_no_project:
  "user_role u = SELLER
    \<Longrightarrow> createBid u None amount deliveryTime message newId now s
          = (Inl (AppError 400 ''All fields are required''), s)"
  by (simp add: createBid_def truthy_def)

text \<open>
  C6 (as amended). When a seller already holds a bid on a project (whatever the status
  of the bid), a bid create by that seller on that project fails and returns the store
  unchanged, so no second bid is created. The failure is that of the first check that
  refuses the request: VALIDATION (400, "All fields are required") when the project id
  is empty or the amount, the delivery time or the message is missing, zero or empty;
  PRECONDITION (400, "Cannot bid on a project that is already in progress or
  completed") when the fields are present and the project has left PENDING; CONFLICT
  (400, "You have already placed a bid on this project") when the fields are present
  and the project is PENDING. A bid create by the seller that names no project fails
  with the same VALIDATION error. In every store built by requests from the empty store
  no two bids share project and seller.
\<close>

theorem createBid_duplicate:
  assumes a: "authenticate e h s = Inr u" and r: "user_role u = SELLER"
    and p: "project_findUnique s pid = Some p"
    and m: "b0 \<in> set (bids s)" and bp: "bid_projectId b0 = pid" and bo: "bid_sellerId b0 = user_id u"
  shows "exec e (CreateBid h (Some pid) amount deliveryTime message newId now) s
           = (if pid = [] \<or> \<not> truthyNum amount \<or> \<not> truthyNum deliveryTime \<or> \<not> truthy message
              then (Inl (AppError 400 ''All fields are required''), s)
              else if project_status p \<noteq> PENDING
              then (Inl (AppError 400
                      ''Cannot bid on a project that is already in progress or completed''), s)
              else (Inl (AppError 400 ''You have already placed a bid on this project''), s))
       \<and> exec e (CreateBid h None amount deliveryTime message newId now) s
           = (Inl (AppError 400 ''All fields are required''), s)
       \<and> oneBidPerSeller (run e rs empty_store)"
proof -
  from m bp bo obtain y where
    y: "bid_findFirst s (\<lambda>b. bid_projectId b = pid \<and> bid_sellerId b = user_id u) = Some y"
    using find_member [of b0 "bids s" "\<lambda>b. bid_projectId b = pid \<and> bid_sellerId b = user_id u"]
    by (auto simp: bid_findFirst_def)
  have "exec e (CreateBid h (Some pid) amount deliveryTime message newId now) s
          = createBid u (Some pid) amount deliveryTime message newId now s"
    using r by (simp del: exec.simps add: exec_CreateBid [OF a])
  also note createBid_existing [OF y r p]
  finally have one: "exec e (CreateBid h (Some pid) amount deliveryTime message newId now) s
           = (if pid = [] \<or> \<not> truthyNum amount \<or> \<not> truthyNum deliveryTime \<or> \<not> truthy message
              then (Inl (AppError 400 ''All fields are required''), s)
              else if project_status p \<noteq> PENDING
              then (Inl (AppError 400
                      ''Cannot bid on a project that is already in progress or completed''), s)
              else (Inl (AppError 400 ''You have already placed a bid on this project''), s))" .
  have "exec e (CreateBid h None amount deliveryTime message newId now) s
          = createBid u None amount deliveryTime message newId now s"
    using r by (simp del: exec.simps add: exec_CreateBid [OF a])
  also note createBid_no_project [OF r]
  finally have two: "exec e (CreateBid h None amount deliveryTime message newId now) s
           = (Inl (AppError 400 ''All fields are required''), s)" .
  have "consistent (run e rs empty_store)"
    using consistent_empty by (rule consistent_run)
  then have three: "oneBidPerSeller (run e rs empty_store)"
    by (simp add: consistent_def)
  from one two three show ?thesis by (intro conjI)
qed

theorem createBid_duplicate_witness:
  "authenticate env0 (Some ''Bearer t:u2'') storeOpen = Inr sellerS1 \<and> user_role sellerS1 = SELLER
   \<and> bidS1 \<in> set (bids storeOpen) \<and> bid_projectId bidS1 = ''p1'' \<and> bid_sellerId bidS1 = user_id sellerS1
   \<and> project_findUnique storeOpen ''p1'' = Some projectP \<and> project_status projectP = PENDING
   \<and> exec env0 (CreateBid (Some ''Bearer t:u2'') (Some ''p1'') (Some 140) (Some 2) (Some ''again'') ''b9'' 30)
        storeOpen
       = (Inl (AppError 400 ''You have already placed a bid on this project''), storeOpen)
   \<and> exec env0 (CreateBid (Some ''Bearer t:u2'') (Some ''p1'') (Some 140) (Some 2) None ''b9'' 30)
        storeOpen
       = (Inl (AppError 400 ''All fields are required''), storeOpen)
   \<and> authenticate env0 (Some ''Bearer t:u2'') storeAwarded = Inr sellerS1
   \<and> bidS1\<lparr>bid_status := ACCEPTED\<rparr> \<in> set (bids storeAwarded)
   \<and> project_findUnique storeAwarded ''p1''
       = Some (projectP\<lparr>project_status := IN_PROGRESS, project_sellerId := Some ''u2''\<rparr>)
   \<and> exec env0 (CreateBid (Some ''Bearer t:u2'') (Some ''p1'') (Some 140) (Some 2) (Some ''again'') ''b9'' 30)
        storeAwarded
       = (Inl (AppError 400 ''Cannot bid on a project that is already in progress or completed''),
          storeAwarded)"
proof -
  have a: "authenticate env0 (Some ''Bearer t:u2'') storeOpen = Inr sellerS1"
    by (simp add: authenticate_def truthy_def user_findUnique_def fixtures)
  have a': "authenticate env0 (Some ''Bearer t:u2'') storeAwarded = Inr sellerS1"
    by (simp add: authenticate_def truthy_def user_findUnique_def fixtures)
  have r: "user_role sellerS1 = SELLER"
    by (simp add: fixtures)
  have m: "bidS1 \<in> set (bids storeOpen)"
    by (simp add: storeOpen_def)
  have m': "bidS1\<lparr>bid_status := ACCEPTED\<rparr> \<in> set (bids storeAwarded)"
    by (simp add: storeAwarded_def)
  have bp: "bid_projectId bidS1 = ''p1''" and bo: "bid_sellerId bidS1 = user_id sellerS1"
    by (simp_all add: fixtures)
  have bp': "bid_projectId (bidS1\<lparr>bid_status := ACCEPTED\<rparr>) = ''p1''"
    and bo': "bid_sellerId (bidS1\<lparr>bid_status := ACCEPTED\<rparr>) = user_id sellerS1"
    by (simp_all add: fixtures)
  have p: "project_findUnique storeOpen ''p1'' = Some projectP"
    by (simp add: project_findUnique_def fixtures)
  have p': "project_findUnique storeAwarded ''p1''
       = Some (projectP\<lparr>project_status := IN_PROGRESS, project_sellerId := Some ''u2''\<rparr>)"
    by (simp add: project_findUnique_def fixtures)
  have st: "project_status projectP = PENDING"
    by (simp add: fixtures)
  have v: "''p1'' \<noteq> [] \<and> truthyNum (Some (140::rat)) \<and> truthyNum (Some (2::int))
           \<and> truthy (Some ''again'') \<and> \<not> truthy None"
    by (simp add: truthy_def truthyNum_def)
  have r1: "exec env0 (CreateBid (Some ''Bearer t:u2'') (Some ''p1'') (Some 140) (Some 2) (Some ''again'') ''b9'' 30)
        storeOpen
       = (Inl (AppError 400 ''You have already placed a bid on this project''), storeOpen)"
    using createBid_duplicate [OF a r p m bp bo, of "Some 140" "Some 2" "Some ''again''" "''b9''" 30] v st
    by (simp del: exec.simps)
  have r2: "exec env0 (CreateBid (Some ''Bearer t:u2'') (Some ''p1'') (Some 140) (Some 2) None ''b9'' 30)
        storeOpen
       = (Inl (AppError 400 ''All fields are required''), storeOpen)"
    using createBid_duplicate [OF a r p m bp bo, of "Some 140" "Some 2" None "''b9''" 30] v
    by (simp del: exec.simps)
  have r3: "exec env0 (CreateBid (Some ''Bearer t:u2'') (Some ''p1'') (Some 140) (Some 2) (Some ''again'') ''b9'' 30)
        storeAwarded
       = (Inl (AppError 400 ''Cannot bid on a project that is already in progress or completed''),
          storeAwarded)"
    using createBid_duplicate [OF a' r p' m' bp' bo', of "Some 140" "Some 2" "Some ''again''" "''b9''" 30] v
    by (simp del: exec.simps)
  from a r m bp bo p st r1 r2 a' m' p' r3 show ?thesis
    by (simp only: simp_thms)
qed

text \<open>
  The claim as stated fails on the kind of the failure when the project has left
  PENDING: Bob's bid on the project was accepted, the project is IN_PROGRESS, and his
  second bid is refused by the status check, which comes before the duplicate check,
  with PRECONDITION (400, "Cannot bid on a project that is already in progress or
  completed").
\<close>

theorem createBid_duplicate_counterexample:
  "authenticate env0 (Some ''Bearer t:u2'') storeAwarded = Inr sellerS1
   \<and> bid_findFirst storeAwarded (\<lambda>b. bid_projectId b = ''p1'' \<and> bid_sellerId b = user_id sellerS1)
       = Some (bidS1\<lparr>bid_status := ACCEPTED\<rparr>)
   \<and> exec env0 (CreateBid (Some ''Bearer t:u2'') (Some ''p1'') (Some 140) (Some 2) (Some ''again'') ''b9'' 30)
        storeAwarded
       = (Inl (AppError 400 ''Cannot bid on a project that is already in progress or completed''),
          storeAwarded)
   \<and> fst (exec env0 (CreateBid (Some ''Bearer t:u2'') (Some ''p1'') (Some 140) (Some 2) (Some ''again'') ''b9'' 30)
        storeAwarded)
       \<noteq> Inl (AppError 400 ''You have already placed a bid on this project'')"
proof -
  have a: "authenticate env0 (Some ''Bearer t:u2'') storeAwarded = Inr sellerS1"
    by (simp add: authenticate_def truthy_def user_findUnique_def fixtures)
  have f: "bid_findFirst storeAwarded (\<lambda>b. bid_projectId b = ''p1'' \<and> bid_sellerId b = user_id sellerS1)
       = Some (bidS1\<lparr>bid_status := ACCEPTED\<rparr>)"
    by (simp add: bid_findFirst_def fixtures)
  have p: "project_findUnique storeAwarded ''p1''
       = Some (projectP\<lparr>project_status := IN_PROGRESS, project_sellerId := Some ''u2''\<rparr>)"
    by (simp add: project_findUnique_def fixtures)
  have r: "user_role sellerS1 = SELLER"
    by (simp add: fixtures)
  have c: "createBid sellerS1 (Some ''p1'') (Some 140) (Some 2) (Some ''again'') ''b9'' 30 storeAwarded
       = (Inl (AppError 400 ''Cannot bid on a project that is already in progress or completed''),
          storeAwarded)"
    by (simp add: createBid_def r truthy_def truthyNum_def p)
  have "exec env0 (CreateBid (Some ''Bearer t:u2'') (Some ''p1'') (Some 140) (Some 2) (Some ''again'') ''b9'' 30)
        storeAwarded
       = (Inl (AppError 400 ''Cannot bid on a project that is already in progress or completed''),
          storeAwarded)"
    by (simp del: exec.simps add: exec_CreateBid [OF a] r c)
  with a f show ?thesis by (simp del: exec.simps)
qed

end
